theory Spec2Isabelle
  imports Main "HOL-Library.Log_Nat" "HOL-Library.Sublist"
begin

section \<open>Python values\<close>

text \<open>
  A Python \<open>str\<close> is a sequence of Unicode code points, so it is modelled as a list of
  naturals (one per code point), not as a list of 8-bit characters. \<open>py\<close> turns an ASCII
  literal of the source into that form.
\<close>

type_synonym pystr = "nat list"

definition py :: "string \<Rightarrow> pystr" where
  "py s = map of_char s"

text \<open>
  The values a quote record can hold. The text ingestors store \<open>str\<close> objects; the CSV
  ingestor stores whatever cell values \<open>pandas.read_csv\<close> hands out, which are \<open>str\<close>
  for text, integers for a column of integers and the float \<open>nan\<close> for an empty cell.
\<close>

datatype pyval = PyStr pystr | PyInt int | PyNaN

fun is_str :: "pyval \<Rightarrow> bool" where
  "is_str (PyStr s) = True"
| "is_str (PyInt n) = False"
| "is_str PyNaN = False"

text \<open>Exceptions are values: the class raised and its message.\<close>

datatype exc_class =
  ValueError | FileNotFoundError | FileExistsError | NotADirectoryError | OSError
  | IndexError | ZeroDivisionError | CalledProcessError | ConnectionError | Exception

datatype pyerror = Raise exc_class pystr

fun str_of_error :: "pyerror \<Rightarrow> pystr" where
  "str_of_error (Raise c msg) = msg"

text \<open>\<open>xs[i]\<close> on a list, for a non-negative index: out of range raises \<open>IndexError\<close>.\<close>

definition getitem :: "'a list \<Rightarrow> nat \<Rightarrow> pyerror + 'a" where
  "getitem xs i =
     (if i < length xs then Inr (xs ! i) else Inl (Raise IndexError (py ''list index out of range'')))"

text \<open>
  \<open>s.split(sep)\<close> for a one-character separator: every occurrence of the separator cuts,
  so the result always has at least one element. (The \<open>[]\<close> branch of the case below is
  never taken, see \<open>split_on_not_Nil\<close>.)
\<close>

fun split_on :: "nat \<Rightarrow> pystr \<Rightarrow> pystr list" where
  "split_on sep [] = [[]]"
| "split_on sep (c # cs) =
     (if c = sep then [] # split_on sep cs
      else (case split_on sep cs of
              p # ps \<Rightarrow> (c # p) # ps
            | [] \<Rightarrow> [[c]]))"

definition dot :: nat where "dot = 46"
definition dash :: nat where "dash = 45"
definition newline :: nat where "newline = 10"

section \<open>The external libraries\<close>

text \<open>
  What the ingestors get from outside the repository: the Unicode tables behind
  \<open>str.isprintable\<close> and \<open>str.isspace\<close>, and the results (or exceptions) of
  \<open>open(path).readlines()\<close>, of \<open>docx.Document(path).paragraphs\<close> (the paragraph texts),
  of \<open>pandas.read_csv(path)\<close> (per row, the cells \<open>x.body\<close> and \<open>x.author\<close>), and of
  the \<open>pdftotext\<close> subprocess (its standard output).
\<close>

record library =
  isprintable :: "nat \<Rightarrow> bool"
  isspace :: "nat \<Rightarrow> bool"
  readlines :: "pystr \<Rightarrow> pyerror + pystr list"
  docx_paragraphs :: "pystr \<Rightarrow> pyerror + pystr list"
  read_csv :: "pystr \<Rightarrow> pyerror + (pyval \<times> pyval) list"
  pdftotext :: "pystr \<Rightarrow> pyerror + pystr"

section \<open>QuoteEngine/TextIngestor.py\<close>

record QuoteModel =
  quote :: pyval
  author :: pyval

subsection \<open>IngestorInterface\<close>

definition input_extension :: "pystr \<Rightarrow> pystr" where
  "input_extension path = last (split_on dot path)"

definition can_ingest :: "pystr list \<Rightarrow> pystr \<Rightarrow> bool" where
  "can_ingest allowed_extensions path = (input_extension path \<in> set allowed_extensions)"

text \<open>
  The character class of \<open>unwanted_chars\<close>, in the order of the source:
  \<open>( ) " # < > { } ` + = ~ | . ! ? / @ ; ,\<close>, then the inverted question mark (191), the
  two guillemets (171, 187), the diaeresis (168), \<open>> >\<close> again, and i with diaeresis (239).
  The backslash of the source escapes the double quote and is not itself in the class.
\<close>

definition unwanted_chars :: "nat list" where
  "unwanted_chars =
     [40, 41, 34, 35, 60, 62, 123, 125, 96, 43, 61, 126, 124, 46, 33, 63, 47, 64, 59, 44,
      191, 171, 187, 168, 62, 62, 239]"

definition lstrip :: "library \<Rightarrow> pystr \<Rightarrow> pystr" where
  "lstrip lib s = dropWhile (isspace lib) s"

definition rstrip :: "library \<Rightarrow> pystr \<Rightarrow> pystr" where
  "rstrip lib s = rev (dropWhile (isspace lib) (rev s))"

definition strip :: "library \<Rightarrow> pystr \<Rightarrow> pystr" where
  "strip lib s = lstrip lib (rstrip lib s)"

definition clean_data :: "library \<Rightarrow> pystr \<Rightarrow> pystr" where
  "clean_data lib text =
     (let cleaned_text = filter (\<lambda>c. c \<notin> set unwanted_chars) text;
          cleaned_text = filter (isprintable lib) cleaned_text
      in strip lib cleaned_text)"

subsection \<open>IngestorDOCX\<close>

primrec docx_quotes :: "library \<Rightarrow> pystr list \<Rightarrow> QuoteModel list" where
  "docx_quotes lib [] = []"
| "docx_quotes lib (paragraph # rest) =
     (if paragraph \<noteq> [] then
        (let parts = split_on dash paragraph in
         if length parts = 2 then
           \<lparr>quote = PyStr (clean_data lib (parts ! 0)),
            author = PyStr (clean_data lib (parts ! 1))\<rparr> # docx_quotes lib rest
         else docx_quotes lib rest)
      else docx_quotes lib rest)"

definition IngestorDOCX_parse :: "library \<Rightarrow> pystr \<Rightarrow> pyerror + QuoteModel list" where
  "IngestorDOCX_parse lib path =
     (if \<not> can_ingest [py ''docx''] path then
        Inl (Raise ValueError (py ''File not supported - '' @ path))
      else (case docx_paragraphs lib path of
              Inl e \<Rightarrow> Inl e
            | Inr paragraphs \<Rightarrow> Inr (docx_quotes lib paragraphs)))"

subsection \<open>IngestorCSV\<close>

definition IngestorCSV_parse :: "library \<Rightarrow> pystr \<Rightarrow> pyerror + QuoteModel list" where
  "IngestorCSV_parse lib path =
     (if \<not> can_ingest [py ''csv''] path then
        Inl (Raise ValueError (py ''File not supported - '' @ path))
      else (case read_csv lib path of
              Inl e \<Rightarrow> Inl e
            | Inr rows \<Rightarrow> Inr (map (\<lambda>(body, auth). \<lparr>quote = body, author = auth\<rparr>) rows)))"

subsection \<open>IngestorPDF\<close>

text \<open>
  The body of the inner \<open>try\<close> for one line of the converted text: \<open>elements[1]\<close> raises
  \<open>IndexError\<close> when the line has no dash.
\<close>

definition pdf_line :: "library \<Rightarrow> pystr \<Rightarrow> pyerror + QuoteModel" where
  "pdf_line lib line =
     (let elements = split_on dash (strip lib line) in
      case getitem elements 0 of
        Inl e \<Rightarrow> Inl e
      | Inr e0 \<Rightarrow>
          (case getitem elements 1 of
             Inl e \<Rightarrow> Inl e
           | Inr e1 \<Rightarrow>
               Inr \<lparr>quote = PyStr (clean_data lib e0), author = PyStr (clean_data lib e1)\<rparr>))"

text \<open>The loop over the lines: \<open>except Exception: continue\<close> drops a line that raised.\<close>

primrec pdf_quotes :: "library \<Rightarrow> pystr list \<Rightarrow> QuoteModel list" where
  "pdf_quotes lib [] = []"
| "pdf_quotes lib (line # rest) =
     (case pdf_line lib line of
        Inl e \<Rightarrow> pdf_quotes lib rest
      | Inr quote_pdf \<Rightarrow> quote_pdf # pdf_quotes lib rest)"

definition IngestorPDF_parse :: "library \<Rightarrow> pystr \<Rightarrow> pyerror + QuoteModel list" where
  "IngestorPDF_parse lib source =
     (if \<not> can_ingest [py ''pdf''] source then
        Inl (Raise ValueError (py ''File not processed: '' @ source))
      else (case pdftotext lib source of
              Inl error \<Rightarrow>
                Inl (Raise ValueError
                       (py ''Error occurred while processing PDF: '' @ str_of_error error))
            | Inr text \<Rightarrow> Inr (pdf_quotes lib (split_on newline text))))"

subsection \<open>IngestorTXT\<close>

primrec txt_quotes :: "library \<Rightarrow> pystr list \<Rightarrow> QuoteModel list" where
  "txt_quotes lib [] = []"
| "txt_quotes lib (line # rest) =
     (if clean_data lib line \<noteq> [] then
        (let parts = split_on dash line in
         if length parts > 1 then
           \<lparr>quote = PyStr (clean_data lib (parts ! 0)),
            author = PyStr (clean_data lib (parts ! 1))\<rparr> # txt_quotes lib rest
         else txt_quotes lib rest)
      else txt_quotes lib rest)"

definition IngestorTXT_parse :: "library \<Rightarrow> pystr \<Rightarrow> pyerror + QuoteModel list" where
  "IngestorTXT_parse lib path =
     (if \<not> can_ingest [py ''txt''] path then
        Inl (Raise ValueError (py ''File not supported - '' @ path))
      else (case readlines lib path of
              Inl e \<Rightarrow> Inl e
            | Inr lines \<Rightarrow> Inr (txt_quotes lib lines)))"

subsection \<open>Ingestor\<close>

definition Ingestor_parse :: "library \<Rightarrow> pystr \<Rightarrow> pyerror + QuoteModel list" where
  "Ingestor_parse lib path =
     (let extension = input_extension path in
      if extension = py ''csv'' then IngestorCSV_parse lib path
      else if extension = py ''docx'' then IngestorDOCX_parse lib path
      else if extension = py ''txt'' then IngestorTXT_parse lib path
      else if extension = py ''pdf'' then IngestorPDF_parse lib path
      else Inl (Raise Exception (py ''No suitable ingestor found'')))"

text \<open>
  A library instance for evaluating examples. Its two Unicode predicates agree with
  CPython on the code points below 256; the four readers are given per example.
\<close>

definition latin1_isprintable :: "nat \<Rightarrow> bool" where
  "latin1_isprintable c = ((32 \<le> c \<and> c \<le> 126) \<or> (161 \<le> c \<and> c \<le> 255 \<and> c \<noteq> 173))"

definition latin1_isspace :: "nat \<Rightarrow> bool" where
  "latin1_isspace c = ((9 \<le> c \<and> c \<le> 13) \<or> (28 \<le> c \<and> c \<le> 32) \<or> c = 133 \<or> c = 160)"

definition no_file :: "pystr \<Rightarrow> pyerror + 'a" where
  "no_file path = Inl (Raise FileNotFoundError path)"

definition example_library :: library where
  "example_library =
     \<lparr>isprintable = latin1_isprintable, isspace = latin1_isspace,
      readlines = no_file, docx_paragraphs = no_file, read_csv = no_file,
      pdftotext = no_file\<rparr>"

section \<open>Floating point\<close>

text \<open>
  Python floats are IEEE 754 doubles: every operation returns the exact result rounded
  to the nearest number with a 53-bit significand, ties to the even significand. The
  model keeps the values as rationals and writes the rounding out. It covers the normal
  range only (no overflow, no subnormals), which is where image sizes live.
\<close>

definition pow2 :: "int \<Rightarrow> rat" where
  "pow2 e = (if 0 \<le> e then 2 ^ nat e else 1 / 2 ^ nat (- e))"

definition round_half_even :: "rat \<Rightarrow> int" where
  "round_half_even q =
     (let f = \<lfloor>q\<rfloor>; d = q - of_int f in
      if d < 1 / 2 then f else if 1 / 2 < d then f + 1 else if even f then f else f + 1)"

text \<open>The exponent of a positive rational: the \<open>k\<close> with \<open>2^k \<le> q < 2^(k+1)\<close>.\<close>

definition ilog2 :: "rat \<Rightarrow> int" where
  "ilog2 q =
     (case quotient_of q of (a, b) \<Rightarrow>
        (let k = bitlen a - bitlen b in if pow2 k \<le> q then k else k - 1))"

definition float_round :: "rat \<Rightarrow> rat" where
  "float_round q =
     (if q = 0 then 0
      else (let e = ilog2 \<bar>q\<bar> - 52 in of_int (round_half_even (q / pow2 e)) * pow2 e))"

text \<open>\<open>a / b\<close> on two ints (true division, correctly rounded), for \<open>b \<noteq> 0\<close>.\<close>

definition int_truediv :: "int \<Rightarrow> int \<Rightarrow> rat" where
  "int_truediv a b = float_round (of_int a / of_int b)"

text \<open>\<open>n * x\<close> for an int \<open>n\<close> that is exactly a float, and a float \<open>x\<close>.\<close>

definition int_mul_float :: "int \<Rightarrow> rat \<Rightarrow> rat" where
  "int_mul_float n x = float_round (of_int n * x)"

text \<open>\<open>int(x)\<close> on a float truncates towards zero.\<close>

definition py_int :: "rat \<Rightarrow> int" where
  "py_int x = (if 0 \<le> x then \<lfloor>x\<rfloor> else \<lceil>x\<rceil>)"

section \<open>Randomness\<close>

text \<open>
  The outcomes of the random module are inputs of the model: each call site reads its
  own raw natural number. \<open>randint a b\<close> (called with \<open>a \<le> b\<close> only) maps it onto
  \<open>a..b\<close>, and \<open>choice\<close> onto the positions of a non-empty sequence; every value of the
  range is the image of some raw number. \<open>rand_names\<close> are the random parts of the
  names that \<open>tempfile\<close> tries for the meme file, in the order it tries them.
\<close>

record randomness =
  rand_x :: nat
  rand_y :: nat
  rand_red :: nat
  rand_green :: nat
  rand_blue :: nat
  rand_names :: "pystr list"
  rand_img :: nat
  rand_quote :: nat
  rand_upload :: pystr

definition randint :: "int \<Rightarrow> int \<Rightarrow> nat \<Rightarrow> int" where
  "randint a b r = a + int (r mod nat (b - a + 1))"


section \<open>Images, paths and the file system\<close>

text \<open>\<open>str(v)\<close>, as an f-string formats a value.\<close>

fun digits :: "nat \<Rightarrow> pystr" where
  "digits n = (if n < 10 then [48 + n] else digits (n div 10) @ [48 + n mod 10])"

fun py_str :: "pyval \<Rightarrow> pystr" where
  "py_str (PyStr s) = s"
| "py_str (PyInt i) = (if i < 0 then 45 # digits (nat (- i)) else digits (nat i))"
| "py_str PyNaN = py ''nan''"

text \<open>
  One call of \<open>ImageDraw.text\<close>: where, what, with which font size, anchor and fill.
  An image is its size and the texts drawn on it so far; the pixels are left out.
\<close>

record overlay =
  position :: "int \<times> int"
  content :: pyval
  font_px :: int
  anchor :: string
  fill :: "int \<times> int \<times> int"

record image =
  im_size :: "int \<times> int"
  overlays :: "overlay list"

text \<open>
  A \<open>pathlib.Path\<close> (of the POSIX flavour): its root and its components. The root is
  empty for a relative path, \<open>/\<close> for an absolute one, and \<open>//\<close> when the string starts
  with exactly two slashes. Building a path from a string drops empty and \<open>.\<close>
  components; \<open>..\<close> is kept as it is.
\<close>

type_synonym path = "pystr \<times> pystr list"

definition slash :: nat where "slash = 47"

definition Path :: "pystr \<Rightarrow> path" where
  "Path s =
     (let n = length (takeWhile (\<lambda>c. c = slash) s)
      in (if n = 2 then [slash, slash] else if 0 < n then [slash] else [],
          filter (\<lambda>p. p \<noteq> [] \<and> p \<noteq> py ''.'') (split_on slash s)))"

fun join_parts :: "pystr list \<Rightarrow> pystr" where
  "join_parts [] = []"
| "join_parts [p] = p"
| "join_parts (p # q # ps) = p @ [slash] @ join_parts (q # ps)"

definition path_str :: "path \<Rightarrow> pystr" where
  "path_str p =
     (case p of (rt, parts) \<Rightarrow>
        if rt = [] \<and> parts = [] then py ''.'' else rt @ join_parts parts)"

definition path_name :: "path \<Rightarrow> pystr" where
  "path_name p = (case p of (rt, parts) \<Rightarrow> if parts = [] then [] else last parts)"

text \<open>
  The part of the world the program changes: the directories and the files that exist,
  and the log of the steps performed so far, oldest first. A directory or file is
  entered under the path that is left when every \<open>name/..\<close> pair is cancelled (there
  are no symbolic links); a relative path is relative to the working directory. The
  roots, the working directory and the directories above it (the paths of \<open>..\<close>
  components only) always exist.
\<close>

datatype event =
  PickImage pystr
  | ParseFile pystr
  | PickQuote
  | ResizeImage "int \<times> int"
  | DrawText overlay
  | SaveFile path

datatype file_content = ImageFile image | RawFile "nat list"

record world =
  dirs :: "path set"
  files :: "path \<rightharpoonup> file_content"
  trace :: "event list"

definition log :: "event \<Rightarrow> world \<Rightarrow> world" where
  "log ev w = w\<lparr>trace := trace w @ [ev]\<rparr>"

fun resolve_parts :: "pystr \<Rightarrow> pystr list \<Rightarrow> pystr list \<Rightarrow> pystr list" where
  "resolve_parts rt seen [] = seen"
| "resolve_parts rt seen (p # ps) =
     (if p = py ''..'' then
        (if seen \<noteq> [] \<and> last seen \<noteq> py ''..'' then resolve_parts rt (butlast seen) ps
         else if rt \<noteq> [] then resolve_parts rt seen ps
         else resolve_parts rt (seen @ [p]) ps)
      else resolve_parts rt (seen @ [p]) ps)"

definition fs_key :: "path \<Rightarrow> path" where
  "fs_key p = (fst p, resolve_parts (fst p) [] (snd p))"

definition is_dir :: "world \<Rightarrow> path \<Rightarrow> bool" where
  "is_dir w p = (list_all (\<lambda>c. c = py ''..'') (snd (fs_key p)) \<or> fs_key p \<in> dirs w)"

definition is_file :: "world \<Rightarrow> path \<Rightarrow> bool" where
  "is_file w p = (fs_key p \<in> dom (files w))"

text \<open>
  What the imaging library and the operating system answer: the size of the image that
  \<open>Image.open\<close> finds at a path, the exception (if any) of a resize to a size, of loading
  the font at a size, of drawing a text and of saving an image; the right and bottom
  edge that \<open>textbbox((0, 0), text, font)\<close> measures; the directories \<open>os.walk\<close> visits
  with their file names; the status code and body that \<open>requests.get\<close> receives; the
  directory for temporary files; and the exception (permission denied and the like)
  with which the operating system refuses to create a directory or a temporary file
  that could otherwise be created.
\<close>

record system =
  image_open :: "pystr \<Rightarrow> pyerror + (int \<times> int)"
  resize_error :: "int \<times> int \<Rightarrow> pyerror option"
  font_error :: "int \<Rightarrow> pyerror option"
  textbbox :: "pyval \<Rightarrow> int \<Rightarrow> pyerror + (int \<times> int)"
  draw_error :: "overlay \<Rightarrow> pyerror option"
  save_error :: "image \<Rightarrow> path \<Rightarrow> pyerror option"
  os_walk :: "pystr \<Rightarrow> (pystr \<times> pystr list) list"
  requests_get :: "pystr \<Rightarrow> pyerror + (int \<times> nat list)"
  gettempdir :: pystr
  mkdir_error :: "path \<Rightarrow> pyerror option"
  tempfile_error :: "path \<Rightarrow> pyerror option"

section \<open>MemeEngine/MemeGenerator.py\<close>

text \<open>
  The attributes that the methods of \<open>MemeGenerator\<close> assign (\<open>self.image\<close>, the two
  fonts) are passed on as values: \<open>load_and_resize_image\<close> returns the image,
  \<open>prepare_fonts\<close> the two font sizes, and \<open>make_meme\<close> takes the output directory of
  the object as its third argument. A raised exception is the \<open>Inl\<close> result; the
  \<open>except\<close> clauses of the class print and raise again, so they change nothing.
\<close>

definition load_and_resize_image :: "system \<Rightarrow> pystr \<Rightarrow> int \<Rightarrow> pyerror + image" where
  "load_and_resize_image sys img_path width =
     (case image_open sys img_path of
        Inl e \<Rightarrow> Inl e
      | Inr (original_width, original_height) \<Rightarrow>
          (let width = (if width > 500 \<or> width < 1 then 500 else width) in
           if original_width = 0 then Inl (Raise ZeroDivisionError (py ''division by zero''))
           else
             (let aspect_ratio = int_truediv original_height original_width;
                  new_height = py_int (int_mul_float width aspect_ratio)
              in case resize_error sys (width, new_height) of
                   Some e \<Rightarrow> Inl e
                 | None \<Rightarrow> Inr \<lparr>im_size = (width, new_height), overlays = []\<rparr>)))"

definition font_size :: int where
  "font_size = 30"

text \<open>\<open>int(self.font_size * 0.8)\<close>; the literal \<open>0.8\<close> is the double nearest to 4/5.\<close>

definition author_font_size :: int where
  "author_font_size = py_int (int_mul_float font_size (float_round (4 / 5)))"

definition prepare_fonts :: "system \<Rightarrow> pyerror + (int \<times> int)" where
  "prepare_fonts sys =
     (case font_error sys font_size of
        Some e \<Rightarrow> Inl e
      | None \<Rightarrow>
          (case font_error sys author_font_size of
             Some e \<Rightarrow> Inl e
           | None \<Rightarrow> Inr (font_size, author_font_size)))"

text \<open>The block of \<open>make_meme\<close> that chooses where the two texts go.\<close>

definition text_position :: "int \<Rightarrow> int \<Rightarrow> int \<Rightarrow> int \<Rightarrow> nat \<Rightarrow> nat \<Rightarrow> int \<times> int" where
  "text_position img_width img_height text_width author_width rx ry =
     (let margin = 10;
          max_text_width = max text_width author_width;
          max_x = max margin (img_width - max_text_width);
          max_y = max (margin + font_size) (img_height - 2 * font_size);
          x = (if max_x > margin then randint margin max_x rx else margin);
          y = (if max_y > margin + font_size then randint (margin + font_size) max_y ry
               else margin + font_size)
      in (x, y))"

text \<open>The two calls of \<open>drawing.text\<close>, and the f-string \<open>f"- {author}"\<close>.\<close>

definition quote_overlay :: "int \<times> int \<Rightarrow> pyval \<Rightarrow> int \<Rightarrow> overlay" where
  "quote_overlay p text font_quote =
     \<lparr>position = p, content = text, font_px = font_quote, anchor = ''lb'',
      fill = (250, 240, 255)\<rparr>"

definition author_line :: "pyval \<Rightarrow> pyval" where
  "author_line auth = PyStr (py ''- '' @ py_str auth)"

definition author_overlay :: "int \<times> int \<Rightarrow> pyval \<Rightarrow> int \<Rightarrow> randomness \<Rightarrow> overlay" where
  "author_overlay p auth font_author rnd =
     \<lparr>position = (fst p, snd p + 5), content = author_line auth, font_px = font_author,
      anchor = ''lt'',
      fill = (randint 0 255 (rand_red rnd), randint 0 255 (rand_green rnd),
              randint 0 255 (rand_blue rnd))\<rparr>"

text \<open>
  What the operating system does with a path. Walking to the last component needs every
  component before it to be a directory: \<open>walk_error\<close> is the error of the first one
  that is not. \<open>os_mkdir\<close> is \<open>os.mkdir\<close>.
\<close>

definition walk_error :: "world \<Rightarrow> path \<Rightarrow> pyerror option" where
  "walk_error w p =
     (case filter (\<lambda>q. \<not> is_dir w q)
             (map (\<lambda>n. (fst p, take n (snd p))) [0..<length (snd p)]) of
        [] \<Rightarrow> None
      | q # qs \<Rightarrow>
          Some (if is_file w q then Raise NotADirectoryError (path_str p)
                else Raise FileNotFoundError (path_str p)))"

definition path_is_dir :: "world \<Rightarrow> path \<Rightarrow> bool" where
  "path_is_dir w p = (walk_error w p = None \<and> is_dir w p)"

definition os_mkdir :: "system \<Rightarrow> path \<Rightarrow> world \<Rightarrow> pyerror + world" where
  "os_mkdir sys p w =
     (case walk_error w p of
        Some e \<Rightarrow> Inl e
      | None \<Rightarrow>
          if is_file w p \<or> is_dir w p then Inl (Raise FileExistsError (path_str p))
          else (case mkdir_error sys p of
                  Some e \<Rightarrow> Inl e
                | None \<Rightarrow> Inr (w\<lparr>dirs := insert (fs_key p) (dirs w)\<rparr>)))"

fun is_FileNotFoundError :: "pyerror \<Rightarrow> bool" where
  "is_FileNotFoundError (Raise c msg) = (c = FileNotFoundError)"

text \<open>
  \<open>Path.mkdir(parents=True, exist_ok=True)\<close>, as pathlib does it, for the path made of
  the first \<open>n\<close> components: try \<open>os.mkdir\<close>; on \<open>FileNotFoundError\<close> make the parent in
  the same way and try once more; any other \<open>OSError\<close> is dropped when the path is a
  directory by then and raised otherwise.
\<close>

fun mkdir_upto :: "system \<Rightarrow> path \<Rightarrow> nat \<Rightarrow> world \<Rightarrow> pyerror + world" where
  "mkdir_upto sys p 0 w =
     (let q = (fst p, []) in
      case os_mkdir sys q w of
        Inr w' \<Rightarrow> Inr w'
      | Inl e \<Rightarrow>
          if is_FileNotFoundError e then Inl e
          else if path_is_dir w q then Inr w else Inl e)"
| "mkdir_upto sys p (Suc n) w =
     (let q = (fst p, take (Suc n) (snd p)) in
      case os_mkdir sys q w of
        Inr w' \<Rightarrow> Inr w'
      | Inl e \<Rightarrow>
          if is_FileNotFoundError e then
            (case mkdir_upto sys p n w of
               Inl e' \<Rightarrow> Inl e'
             | Inr w1 \<Rightarrow>
                 (case os_mkdir sys q w1 of
                    Inr w2 \<Rightarrow> Inr w2
                  | Inl e2 \<Rightarrow>
                      if is_FileNotFoundError e2 then Inl e2
                      else if path_is_dir w1 q then Inr w1 else Inl e2))
          else if path_is_dir w q then Inr w else Inl e)"

text \<open>\<open>output_folder.mkdir(parents=True, exist_ok=True)\<close>.\<close>

definition mkdir_parents :: "system \<Rightarrow> path \<Rightarrow> world \<Rightarrow> pyerror + world" where
  "mkdir_parents sys p w = mkdir_upto sys p (length (snd p)) w"

text \<open>
  \<open>tempfile.NamedTemporaryFile(dir=d, prefix='meme_', suffix='.jpg').name\<close>: tempfile
  takes the candidate names of its random generator in turn and opens
  \<open>d/meme_<name>.jpg\<close> for exclusive creation. A name that exists already is skipped;
  a directory that is missing, and any other refusal of the operating system, is
  raised; when the names run out, \<open>FileExistsError\<close> is raised. The file object is
  dropped at once, which closes and deletes the file, so that only its name remains.
  The name is an absolute, normalised path; the model keeps it relative to the working
  directory.
\<close>

definition temp_file :: "pystr \<Rightarrow> pystr \<Rightarrow> path" where
  "temp_file d random_part =
     (fst (fs_key (Path d)),
      snd (fs_key (Path d)) @ [py ''meme_'' @ random_part @ py ''.jpg''])"

fun NamedTemporaryFile_name ::
  "system \<Rightarrow> pystr \<Rightarrow> pystr list \<Rightarrow> world \<Rightarrow> pyerror + path" where
  "NamedTemporaryFile_name sys d [] w =
     Inl (Raise FileExistsError (py ''No usable temporary file name found''))"
| "NamedTemporaryFile_name sys d (n # names) w =
     (let file = temp_file d n in
      case walk_error w file of
        Some e \<Rightarrow> Inl e
      | None \<Rightarrow>
          if is_file w file \<or> is_dir w file then NamedTemporaryFile_name sys d names w
          else (case tempfile_error sys file of
                  Some e \<Rightarrow> Inl e
                | None \<Rightarrow> Inr file))"

definition make_meme ::
  "system \<Rightarrow> randomness \<Rightarrow> pystr \<Rightarrow> pystr \<Rightarrow> pyval \<Rightarrow> pyval \<Rightarrow> int \<Rightarrow> world
     \<Rightarrow> (pyerror + pystr) \<times> world" where
  "make_meme sys rnd output_dir img_path text auth width w =
     (case load_and_resize_image sys img_path width of
        Inl e \<Rightarrow> (Inl e, w)
      | Inr img \<Rightarrow>
     (let w = log (ResizeImage (im_size img)) w in
      case prepare_fonts sys of
        Inl e \<Rightarrow> (Inl e, w)
      | Inr (font_quote, font_author) \<Rightarrow>
     (let (img_width, img_height) = im_size img in
      case textbbox sys text font_quote of
        Inl e \<Rightarrow> (Inl e, w)
      | Inr (text_width, text_bottom) \<Rightarrow>
     (case textbbox sys (author_line auth) font_author of
        Inl e \<Rightarrow> (Inl e, w)
      | Inr (author_width, author_bottom) \<Rightarrow>
     (let xy = text_position img_width img_height text_width author_width
                 (rand_x rnd) (rand_y rnd);
          o1 = quote_overlay xy text font_quote
      in case draw_error sys o1 of
        Some e \<Rightarrow> (Inl e, w)
      | None \<Rightarrow>
     (let img = img\<lparr>overlays := overlays img @ [o1]\<rparr>;
          w = log (DrawText o1) w;
          o2 = author_overlay xy auth font_author rnd
      in case draw_error sys o2 of
        Some e \<Rightarrow> (Inl e, w)
      | None \<Rightarrow>
     (let img = img\<lparr>overlays := overlays img @ [o2]\<rparr>;
          w = log (DrawText o2) w;
          output_folder = Path output_dir
      in case mkdir_parents sys output_folder w of
        Inl e \<Rightarrow> (Inl e, w)
      | Inr w \<Rightarrow>
     (case NamedTemporaryFile_name sys (path_name output_folder) (rand_names rnd) w of
        Inl e \<Rightarrow> (Inl e, w)
      | Inr output_path_complete \<Rightarrow>
     (case save_error sys img output_path_complete of
        Some e \<Rightarrow> (Inl e, w)
      | None \<Rightarrow>
          (Inr (path_str output_folder @ [slash] @ path_name output_path_complete),
           log (SaveFile output_path_complete)
             (w\<lparr>files := (files w)(output_path_complete \<mapsto> ImageFile img)\<rparr>)))))))))))"

text \<open>
  Where the two blocks end up on the image, as left, top, right, bottom. The quote is
  anchored \<open>lb\<close> (its left bottom corner is the drawing point), the author line \<open>lt\<close>
  (its left top corner is the drawing point, five pixels lower). The widths are the
  ones \<open>make_meme\<close> measures; the heights are the ones it throws away.
\<close>

definition quote_box :: "int \<times> int \<Rightarrow> int \<Rightarrow> int \<Rightarrow> int \<times> int \<times> int \<times> int" where
  "quote_box p text_width text_height =
     (case p of (x, y) \<Rightarrow> (x, y - text_height, x + text_width, y))"

definition author_box :: "int \<times> int \<Rightarrow> int \<Rightarrow> int \<Rightarrow> int \<times> int \<times> int \<times> int" where
  "author_box p author_width author_height =
     (case p of (x, y) \<Rightarrow> (x, y + 5, x + author_width, y + 5 + author_height))"

definition within_image :: "int \<Rightarrow> int \<Rightarrow> int \<times> int \<times> int \<times> int \<Rightarrow> bool" where
  "within_image img_width img_height box =
     (case box of (x0, y0, x1, y1) \<Rightarrow>
        0 \<le> x0 \<and> x1 \<le> img_width \<and> 0 \<le> y0 \<and> y1 \<le> img_height)"

section \<open>main.py\<close>












section \<open>app.py\<close>

text \<open>
  What a view function returns: a text with a status code, or a rendered template with
  its \<open>path\<close> argument.
\<close>

datatype response = TextStatus pystr int | RenderTemplate pystr pystr

text \<open>The truth value of what \<open>request.form.get\<close> returns: \<open>None\<close> and \<open>''\<close> are false.\<close>

definition truthy :: "pystr option \<Rightarrow> bool" where
  "truthy v = (case v of None \<Rightarrow> False | Some s \<Rightarrow> s \<noteq> [])"

text \<open>
  The name of \<open>tempfile.NamedTemporaryFile(delete=False, suffix=".jpg")\<close>: a fresh file
  in the directory for temporary files.
\<close>

definition upload_path :: "system \<Rightarrow> randomness \<Rightarrow> path" where
  "upload_path sys rnd =
     (fst (fs_key (Path (gettempdir sys))),
      snd (fs_key (Path (gettempdir sys))) @ [py ''tmp'' @ rand_upload rnd @ py ''.jpg''])"

definition meme_post ::
  "system \<Rightarrow> randomness \<Rightarrow> (pystr \<Rightarrow> pystr option) \<Rightarrow> world \<Rightarrow> (pyerror + response) \<times> world" where
  "meme_post sys rnd form w =
     (let image_url = form (py ''image_url'');
          body = form (py ''body'');
          auth = form (py ''author'')
      in if \<not> truthy image_url \<or> \<not> truthy body \<or> \<not> truthy auth then
           (Inr (TextStatus (py ''Missing info.'') 400), w)
         else
           (case requests_get sys (the image_url) of
              Inl e \<Rightarrow> (Inl e, w)
            | Inr (status_code, data) \<Rightarrow>
                if status_code \<noteq> 200 then
                  (Inr (TextStatus (py ''Error getting the image'') 400), w)
                else
                  (let temp_file = upload_path sys rnd;
                       w = w\<lparr>files := (files w)(temp_file \<mapsto> RawFile data)\<rparr>
                   in case make_meme sys rnd (py ''./static'') (path_str temp_file)
                             (PyStr (the body)) (PyStr (the auth)) 500 w of
                        (Inl e, w) \<Rightarrow> (Inl e, w)
                      | (Inr p, w) \<Rightarrow>
                          (Inr (RenderTemplate (py ''meme.html'') p),
                           w\<lparr>files := (files w)(temp_file := None)\<rparr>))))"

section \<open>Example inputs\<close>

text \<open>
  A system in which every image file is \<open>ow\<close> by \<open>oh\<close> pixels, nothing fails, and a text
  measures half its font size per character.
\<close>

definition example_system :: "int \<Rightarrow> int \<Rightarrow> system" where
  "example_system ow oh =
     \<lparr>image_open = (\<lambda>p. Inr (ow, oh)),
      resize_error = (\<lambda>s. None),
      font_error = (\<lambda>n. None),
      textbbox = (\<lambda>t n. Inr (int (length (py_str t)) * (n div 2), n)),
      draw_error = (\<lambda>ov. None),
      save_error = (\<lambda>im p. None),
      os_walk = (\<lambda>d. [(d, [py ''dog.jpg''])]),
      requests_get = (\<lambda>u. Inr (200, [])),
      gettempdir = py ''/tmp'',
      mkdir_error = (\<lambda>p. None),
      tempfile_error = (\<lambda>p. None)\<rparr>"

definition example_randomness :: randomness where
  "example_randomness =
     \<lparr>rand_x = 7, rand_y = 1000, rand_red = 1, rand_green = 2, rand_blue = 3,
      rand_names = [py ''abcd1234''], rand_img = 0, rand_quote = 0,
      rand_upload = py ''wxyz5678''\<rparr>"

definition empty_world :: world where
  "empty_world = \<lparr>dirs = {}, files = Map.empty, trace = []\<rparr>"

text \<open>Libraries whose CSV reader returns given rows, and whose PDF converter a given text.\<close>

definition csv_library :: "(pyval \<times> pyval) list \<Rightarrow> library" where
  "csv_library rows = example_library\<lparr>read_csv := (\<lambda>p. Inr rows)\<rparr>"

definition pdf_library :: "pystr \<Rightarrow> library" where
  "pdf_library out = example_library\<lparr>pdftotext := (\<lambda>p. Inr out)\<rparr>"


text \<open>The image that the example system and the example randomness produce.\<close>

definition example_image :: image where
  "example_image =
     \<lparr>im_size = (500, 400),
      overlays = [\<lparr>position = (17, 137), content = PyStr (py ''Woof''), font_px = 30,
                    anchor = ''lb'', fill = (250, 240, 255)\<rparr>,
                  \<lparr>position = (17, 142), content = PyStr (py ''- Rex''), font_px = 24,
                    anchor = ''lt'', fill = (1, 2, 3)\<rparr>]\<rparr>"

definition example_form :: "pystr \<Rightarrow> pystr \<Rightarrow> pystr \<Rightarrow> pystr \<Rightarrow> pystr option" where
  "example_form u b a = [py ''image_url'' \<mapsto> u, py ''body'' \<mapsto> b, py ''author'' \<mapsto> a]"

text \<open>
  A quote of sixty letters, which measures 900 pixels in the quote font of the example
  system.
\<close>

definition wide_quote :: pystr where
  "wide_quote = replicate 60 (of_char CHR ''W'')"

text \<open>A system without image files, and a world whose working directory holds \<open>memes\<close>.\<close>

definition failing_system :: system where
  "failing_system = (example_system 1000 800)\<lparr>image_open := no_file\<rparr>"

definition memes_world :: world where
  "memes_world = \<lparr>dirs = {([], [py ''memes''])}, files = Map.empty, trace = []\<rparr>"

section \<open>Properties of the string helpers\<close>

lemma split_on_not_Nil: "split_on sep s \<noteq> []"
  by (induction s) (auto split: list.splits)

lemma strip_ends:
  "strip lib s = [] \<or> (\<not> isspace lib (hd (strip lib s)) \<and> \<not> isspace lib (last (strip lib s)))"
proof (cases "strip lib s = []")
  case True
  then show ?thesis by simp
next
  case False
  let ?r = "rstrip lib s"
  let ?t = "strip lib s"
  have t: "?t = dropWhile (isspace lib) ?r"
    by (simp add: strip_def lstrip_def)
  from False t have rne: "?r \<noteq> []" by auto
  have "rev ?r = dropWhile (isspace lib) (rev s)"
    by (simp add: rstrip_def)
  with rne have "\<not> isspace lib (hd (rev ?r))"
    by (metis hd_dropWhile rev_is_Nil_conv)
  with rne have lastr: "\<not> isspace lib (last ?r)"
    by (simp add: hd_rev)
  have hd: "\<not> isspace lib (hd ?t)"
    using False t by (metis hd_dropWhile)
  obtain pre where "?r = pre @ ?t"
    using t by (metis takeWhile_dropWhile_id)
  with False have "last ?r = last ?t" by simp
  with lastr hd False show ?thesis by simp
qed

lemma lstrip_id: "s = [] \<or> \<not> isspace lib (hd s) \<Longrightarrow> lstrip lib s = s"
  by (cases s) (auto simp: lstrip_def)

lemma rstrip_id: "s = [] \<or> \<not> isspace lib (last s) \<Longrightarrow> rstrip lib s = s"
proof -
  assume a: "s = [] \<or> \<not> isspace lib (last s)"
  have "dropWhile (isspace lib) (rev s) = rev s"
  proof (cases "s = []")
    case True
    then show ?thesis by simp
  next
    case False
    with a have "\<not> isspace lib (hd (rev s))" by (simp add: hd_rev)
    with False show ?thesis by (cases "rev s") auto
  qed
  then show ?thesis by (simp add: rstrip_def)
qed

lemma strip_strip: "strip lib (strip lib s) = strip lib s"
proof -
  let ?t = "strip lib s"
  from strip_ends [of lib s] have "rstrip lib ?t = ?t"
    by (intro rstrip_id) auto
  moreover from strip_ends [of lib s] have "lstrip lib ?t = ?t"
    by (intro lstrip_id) auto
  ultimately show ?thesis by (simp add: strip_def [of lib "strip lib s"])
qed

lemma set_strip: "set (strip lib s) \<subseteq> set s"
proof -
  have "set (strip lib s) \<subseteq> set (rstrip lib s)"
    unfolding strip_def lstrip_def by (rule set_dropWhileD [THEN subsetI])
  also have "set (rstrip lib s) \<subseteq> set s"
    unfolding rstrip_def using set_dropWhileD [of _ "isspace lib" "rev s"] by auto
  finally show ?thesis .
qed

lemma clean_data_chars:
  "c \<in> set (clean_data lib s) \<Longrightarrow> c \<notin> set unwanted_chars \<and> isprintable lib c"
  using set_strip [of lib "filter (isprintable lib) (filter (\<lambda>c. c \<notin> set unwanted_chars) s)"]
  by (auto simp: clean_data_def)

lemma filter_id: "(\<And>c. c \<in> set s \<Longrightarrow> P c) \<Longrightarrow> filter P s = s"
  by (induction s) auto

lemma clean_data_fixed: "clean_data lib (clean_data lib s) = clean_data lib s"
proof -
  let ?t = "clean_data lib s"
  have f1: "filter (\<lambda>c. c \<notin> set unwanted_chars) ?t = ?t"
    by (rule filter_id) (use clean_data_chars in blast)
  have f2: "filter (isprintable lib) ?t = ?t"
    by (rule filter_id) (use clean_data_chars in blast)
  have "clean_data lib ?t = strip lib ?t"
    by (simp add: clean_data_def [of lib ?t] f1 f2)
  also have "\<dots> = ?t"
    by (simp add: clean_data_def [of lib s] strip_strip)
  finally show ?thesis .
qed


lemma split_on_no_sep: "sep \<notin> set s \<Longrightarrow> split_on sep s = [s]"
  by (induction s) auto

lemma split_on_sep_length: "sep \<in> set s \<Longrightarrow> 2 \<le> length (split_on sep s)"
proof (induction s)
  case Nil
  then show ?case by simp
next
  case (Cons c cs)
  show ?case
  proof (cases "c = sep")
    case True
    then show ?thesis using split_on_not_Nil [of sep cs]
      by (cases "split_on sep cs") auto
  next
    case False
    with Cons show ?thesis by (auto split: list.splits)
  qed
qed

lemma last_split_on_eq:
  "last (split_on sep s) = rev (takeWhile (\<lambda>c. c \<noteq> sep) (rev s))"
proof (induction s)
  case Nil
  then show ?case by simp
next
  case (Cons c cs)
  show ?case
  proof (cases "c = sep")
    case True
    then show ?thesis
      using Cons split_on_not_Nil [of sep cs] by (simp add: takeWhile_append)
  next
    case False
    show ?thesis
    proof (cases "sep \<in> set cs")
      case True
      then obtain p q qs where "split_on sep cs = p # q # qs"
        using split_on_sep_length [of sep cs]
        by (cases "split_on sep cs") (auto simp: Suc_le_eq neq_Nil_conv)
      with False True Cons show ?thesis
        by (auto simp: takeWhile_append)
    next
      case nosep: False
      with False show ?thesis
        by (simp add: split_on_no_sep takeWhile_append)
    qed
  qed
qed

lemma input_extension_after_last_dot:
  "dot \<notin> set (input_extension path) \<and>
   (\<exists>pre. path = pre @ input_extension path \<and> (pre = [] \<or> last pre = dot))"
proof -
  let ?P = "\<lambda>c. c \<noteq> dot"
  let ?ext = "rev (takeWhile ?P (rev path))"
  let ?pre = "rev (dropWhile ?P (rev path))"
  have e: "input_extension path = ?ext"
    by (simp add: input_extension_def last_split_on_eq)
  have 1: "dot \<notin> set ?ext"
    using set_takeWhileD [of dot ?P "rev path"] by auto
  have "rev path = takeWhile ?P (rev path) @ dropWhile ?P (rev path)"
    by simp
  then have "rev (rev path) = rev (takeWhile ?P (rev path) @ dropWhile ?P (rev path))"
    by (rule arg_cong)
  then have 2: "path = ?pre @ ?ext"
    by (simp only: rev_append rev_rev_ident)
  have 3: "?pre = [] \<or> last ?pre = dot"
  proof (cases "dropWhile ?P (rev path)")
    case Nil
    then show ?thesis by simp
  next
    case (Cons x xs)
    have "\<not> ?P (hd (dropWhile ?P (rev path)))"
      by (rule hd_dropWhile) (simp add: Cons)
    with Cons show ?thesis by simp
  qed
  show ?thesis
    unfolding e using 1 2 3 by (intro conjI exI [of _ ?pre]) auto
qed

section \<open>Properties of the floating-point model\<close>

lemma pow2_powi: "pow2 e = 2 powi e"
  by (simp add: pow2_def power_int_def inverse_eq_divide power_one_over)

lemma pow2_pos: "0 < pow2 e"
  by (simp add: pow2_powi)

lemma pow2_diff: "pow2 (a - b) = pow2 a / pow2 b"
  by (simp add: pow2_powi power_int_diff)

lemma pow2_nat: "0 \<le> k \<Longrightarrow> pow2 k = 2 ^ nat k"
  by (simp add: pow2_def)

lemma ilog2_lower:
  assumes "0 < q"
  shows "pow2 (ilog2 q) \<le> q"
proof -
  obtain a b where ab: "quotient_of q = (a, b)" by (cases "quotient_of q")
  then have b: "0 < b" by (rule quotient_of_denom_pos)
  from ab have q: "q = of_int a / of_int b" by (rule quotient_of_div)
  with assms b have a: "0 < a" by (simp add: zero_less_divide_iff)
  let ?k = "bitlen a - bitlen b"
  show ?thesis
  proof (cases "pow2 ?k \<le> q")
    case True
    then show ?thesis by (simp add: ilog2_def ab Let_def)
  next
    case False
    then have i: "ilog2 q = ?k - 1" by (simp add: ilog2_def ab Let_def)
    from a have ka: "1 \<le> bitlen a" using bitlen_eq_zero_iff [of a] bitlen_nonneg [of a] by linarith
    from bitlen_bounds [OF a] have "2 ^ nat (bitlen a - 1) \<le> a" by simp
    then have "(of_int (2 ^ nat (bitlen a - 1)) :: rat) \<le> of_int a" by (simp only: of_int_le_iff)
    then have la: "pow2 (bitlen a - 1) \<le> of_int a" using ka by (simp add: pow2_nat)
    from bitlen_bounds [OF b] have "b < 2 ^ nat (bitlen b)" by simp
    then have "(of_int b :: rat) < of_int (2 ^ nat (bitlen b))" by (simp only: of_int_less_iff)
    then have ub: "of_int b \<le> pow2 (bitlen b)" using bitlen_nonneg [of b] by (simp add: pow2_nat)
    have "pow2 (?k - 1) = pow2 (bitlen a - 1) / pow2 (bitlen b)"
      using pow2_diff [of "bitlen a - 1" "bitlen b"] by (simp add: algebra_simps)
    also have "\<dots> \<le> of_int a / pow2 (bitlen b)"
      using la pow2_pos [of "bitlen b"] by (simp add: divide_right_mono)
    also have "\<dots> \<le> of_int a / of_int b"
      using ub a b by (simp add: frac_le)
    finally show ?thesis using i q by simp
  qed
qed

lemma round_half_even_error: "\<bar>of_int (round_half_even x) - x\<bar> \<le> 1 / 2"
proof -
  have "of_int \<lfloor>x\<rfloor> \<le> x" "x < of_int \<lfloor>x\<rfloor> + 1" by linarith+
  then show ?thesis
    by (auto simp: round_half_even_def Let_def abs_le_iff)
qed

lemma float_round_error:
  assumes "0 < q"
  shows "\<bar>float_round q - q\<bar> \<le> q / 2 ^ 53"
proof -
  let ?e = "ilog2 q - 52"
  let ?x = "q / pow2 ?e"
  from assms have fr: "float_round q = of_int (round_half_even ?x) * pow2 ?e"
    by (simp add: float_round_def Let_def)
  have pe: "0 < pow2 ?e" by (rule pow2_pos)
  have "float_round q - q = (of_int (round_half_even ?x) - ?x) * pow2 ?e"
    using pe by (simp add: fr field_simps)
  then have "\<bar>float_round q - q\<bar> = \<bar>of_int (round_half_even ?x) - ?x\<bar> * pow2 ?e"
    using pe by (simp add: abs_mult)
  also have "\<dots> \<le> 1 / 2 * pow2 ?e"
    using round_half_even_error [of ?x] pe by (simp add: mult_right_mono)
  also have "pow2 ?e = pow2 (ilog2 q) / 2 ^ 52"
    using pow2_diff [of "ilog2 q" 52] by (simp add: pow2_def)
  also have "1 / 2 * (pow2 (ilog2 q) / 2 ^ 52) = pow2 (ilog2 q) / 2 ^ 53"
    by simp
  also have "\<dots> \<le> q / 2 ^ 53"
    using ilog2_lower [OF assms] by (simp add: divide_right_mono)
  finally show ?thesis .
qed

lemma float_round_zero: "float_round 0 = 0"
  by (simp add: float_round_def)

lemma float_round_bounds:
  assumes "0 \<le> q"
  shows "q * (1 - 1 / 2 ^ 53) \<le> float_round q \<and> float_round q \<le> q * (1 + 1 / 2 ^ 53)"
proof (cases "q = 0")
  case True
  then show ?thesis by (simp add: float_round_zero)
next
  case False
  with assms have "0 < q" by simp
  from float_round_error [OF this]
  have "float_round q - q \<le> q / 2 ^ 53" "- (q / 2 ^ 53) \<le> float_round q - q"
    by (simp_all only: abs_le_iff minus_diff_eq) linarith+
  then show ?thesis
    by (simp add: algebra_simps)
qed

lemma new_height_bounds:
  assumes w: "0 \<le> w" and h: "0 \<le> h" and w0: "0 < w0" and small: "w * h < 2 ^ 51"
  shows "\<lfloor>of_int (w * h) / (of_int w0 :: rat)\<rfloor> - 1 \<le> py_int (int_mul_float w (int_truediv h w0))
       \<and> py_int (int_mul_float w (int_truediv h w0)) \<le> \<lfloor>of_int (w * h) / (of_int w0 :: rat)\<rfloor>
       \<and> (\<not> w0 dvd w * h \<longrightarrow>
            py_int (int_mul_float w (int_truediv h w0)) = \<lfloor>of_int (w * h) / (of_int w0 :: rat)\<rfloor>)"
proof -
  define u :: rat where "u = 1 / 2 ^ 53"
  define r :: rat where "r = of_int h / of_int w0"
  define r' where "r' = float_round r"
  define p where "p = of_int w * r'"
  define p' where "p' = float_round p"
  define v :: rat where "v = of_int (w * h) / of_int w0"
  have u0: "0 \<le> u" "0 \<le> 1 - u" "0 \<le> 1 + u" "u \<le> 1" by (simp_all add: u_def)
  have u51: "2 ^ 51 * (3 * u) < 1" by (simp add: u_def)
  have r0: "0 \<le> r" using h w0 by (simp add: r_def)
  have r': "r * (1 - u) \<le> r'" "r' \<le> r * (1 + u)"
    using float_round_bounds [OF r0] by (simp_all only: u_def r'_def)
  from r'(1) r0 u0(2) have r'0: "0 \<le> r'"
    by (meson mult_nonneg_nonneg order_trans)
  have wq: "(0::rat) \<le> of_int w" using w by simp
  have p0: "0 \<le> p" using wq r'0 by (simp add: p_def)
  have p': "p * (1 - u) \<le> p'" "p' \<le> p * (1 + u)"
    using float_round_bounds [OF p0] by (simp_all only: u_def p'_def)
  have v: "v = of_int w * r" by (simp add: v_def r_def)
  have pl: "v * (1 - u) \<le> p"
    using mult_left_mono [OF r'(1) wq] by (simp only: v p_def mult.assoc)
  have pu: "p \<le> v * (1 + u)"
    using mult_left_mono [OF r'(2) wq] by (simp only: v p_def mult.assoc)
  have lo: "v * (1 - u) * (1 - u) \<le> p'"
    using mult_right_mono [OF pl u0(2)] p'(1) by (rule order_trans)
  have hi: "p' \<le> v * (1 + u) * (1 + u)"
    using p'(2) mult_right_mono [OF pu u0(3)] by (rule order_trans)
  have v0: "0 \<le> v" using w h w0 by (simp add: v_def)
  have p'0: "0 \<le> p'"
    using lo v0 u0(2) by (meson mult_nonneg_nonneg order_trans)
  have "(of_int (w * h) :: rat) < of_int (2 ^ 51)" using small by (simp only: of_int_less_iff)
  then have whs: "(of_int (w * h) :: rat) < 2 ^ 51" by simp
  have w0q: "(0::rat) < of_int w0" using w0 by simp
  have wh3: "of_int (w * h) * (3 * u) < (1::rat)"
  proof -
    have "of_int (w * h) * (3 * u) \<le> 2 ^ 51 * (3 * u)"
      using whs u0(1) by (intro mult_right_mono) simp_all
    then show ?thesis using u51 by (rule le_less_trans)
  qed
  have eps: "v * (3 * u) < 1 / of_int w0"
  proof -
    have "v * (3 * u) = (of_int (w * h) * (3 * u)) / of_int w0" by (simp add: v_def)
    also have "\<dots> < 1 / of_int w0"
      using wh3 w0q by (rule divide_strict_right_mono)
    finally show ?thesis .
  qed
  have uu: "u * u \<le> u" using u0(1) u0(4) by (simp add: mult_left_le)
  have "v * (1 + u) * (1 + u) = v + v * (2 * u + u * u)" by (simp add: algebra_simps)
  moreover have "v * (2 * u + u * u) \<le> v * (3 * u)"
    using v0 uu by (intro mult_left_mono) simp_all
  ultimately have "v * (1 + u) * (1 + u) \<le> v + v * (3 * u)" by linarith
  with hi eps have upper: "p' < v + 1 / of_int w0" by linarith
  have "v * (1 - u) * (1 - u) = v - v * (2 * u - u * u)" by (simp add: algebra_simps)
  moreover have "v * (2 * u - u * u) \<le> v * (3 * u)"
  proof -
    have "0 \<le> u * u" by simp
    with u0(1) have "2 * u - u * u \<le> 3 * u" by linarith
    then show ?thesis using v0 by (rule mult_left_mono)
  qed
  ultimately have "v - v * (3 * u) \<le> v * (1 - u) * (1 - u)" by linarith
  with lo eps have lower: "v - 1 / of_int w0 < p'" by linarith
  define k where "k = (w * h) div w0"
  define j where "j = (w * h) mod w0"
  have k: "\<lfloor>v\<rfloor> = k" by (simp only: v_def k_def floor_divide_of_int_eq)
  have vkj: "v = of_int k + of_int j / of_int w0"
  proof -
    have "w * h = k * w0 + j" by (simp add: k_def j_def)
    then have "(of_int (w * h) :: rat) = of_int k * of_int w0 + of_int j" by simp
    then show ?thesis using w0q by (simp add: v_def field_simps)
  qed
  have j: "0 \<le> j" "j < w0" using w0 by (simp_all add: j_def)
  have pyi: "py_int (int_mul_float w (int_truediv h w0)) = \<lfloor>p'\<rfloor>"
    using p'0 by (simp add: py_int_def int_mul_float_def int_truediv_def p'_def p_def r'_def r_def)
  have j1: "(of_int j + 1) / of_int w0 \<le> (1::rat)"
  proof -
    from j(2) have "j + 1 \<le> w0" by simp
    then have "(of_int (j + 1) :: rat) \<le> of_int w0" by (simp only: of_int_le_iff)
    then show ?thesis using w0q by (simp add: le_divide_eq)
  qed
  have "p' < of_int k + (of_int j + 1) / of_int w0"
    using upper vkj by (simp add: add_divide_distrib)
  with j1 have "p' < of_int k + 1" by linarith
  then have fl_up: "\<lfloor>p'\<rfloor> \<le> k" by (simp add: floor_less_iff [symmetric] floor_le_iff)
  have low2: "of_int k + (of_int j - 1) / of_int w0 < p'"
    using lower vkj by (simp add: diff_divide_distrib)
  have "(-1::rat) \<le> (of_int j - 1) / of_int w0"
  proof -
    have "(1::rat) \<le> of_int w0" using w0 by simp
    then have "- 1 / of_int w0 \<ge> (-1::rat)" using w0q by (simp add: field_simps)
    moreover have "(- 1 :: rat) / of_int w0 \<le> (of_int j - 1) / of_int w0"
      using j(1) w0q by (intro divide_right_mono) simp_all
    ultimately show ?thesis by linarith
  qed
  with low2 have "of_int k - 1 < p'" by linarith
  then have fl_lo: "k - 1 \<le> \<lfloor>p'\<rfloor>" by (simp add: le_floor_iff)
  have exact: "\<not> w0 dvd w * h \<longrightarrow> \<lfloor>p'\<rfloor> = k"
  proof
    assume "\<not> w0 dvd w * h"
    then have "j \<noteq> 0" by (simp add: j_def dvd_eq_mod_eq_0)
    with j have "1 \<le> j" by simp
    then have "(0::rat) \<le> (of_int j - 1) / of_int w0"
      using w0q by simp
    with low2 have "of_int k < p'" by linarith
    then have "k \<le> \<lfloor>p'\<rfloor>" by (simp add: le_floor_iff)
    with fl_up show "\<lfloor>p'\<rfloor> = k" by simp
  qed
  show ?thesis using fl_up fl_lo exact unfolding pyi k [unfolded v_def] by simp
qed


lemma example_new_height: "py_int (int_mul_float 500 (int_truediv 2002 1000)) = 1000"
  by code_simp

lemma author_font_size_24: "author_font_size = 24"
  by code_simp

section \<open>Properties of the random draws and of the layout\<close>

lemma randint_range: "a \<le> b \<Longrightarrow> a \<le> randint a b r \<and> randint a b r \<le> b"
proof -
  assume ab: "a \<le> b"
  let ?n = "nat (b - a + 1)"
  from ab have "0 < ?n" by simp
  then have "r mod ?n < ?n" by (rule mod_less_divisor)
  then have "int (r mod ?n) < int ?n" by simp
  also from ab have "int ?n = b - a + 1" by simp
  finally show ?thesis unfolding randint_def by simp
qed

lemma randint_onto: "a \<le> v \<Longrightarrow> v \<le> b \<Longrightarrow> randint a b (nat (v - a)) = v"
  unfolding randint_def by simp

lemma text_position_range:
  "text_position W H tw aw rx ry = (x, y) \<Longrightarrow>
     10 \<le> x \<and> x \<le> max 10 (W - max tw aw) \<and> 40 \<le> y \<and> y \<le> max 40 (H - 60)"
  using randint_range [of 10 "max 10 (W - max tw aw)" rx]
    randint_range [of 40 "max 40 (H - 60)" ry]
  by (auto simp: text_position_def font_size_def Let_def split: if_splits)

lemma text_position_low:
  "text_position W H tw aw 0 0 = (10, 40)"
  by (simp add: text_position_def font_size_def Let_def randint_def)

lemma text_position_high:
  "\<exists>rx ry. text_position W H tw aw rx ry = (max 10 (W - max tw aw), max 40 (H - 60))"
proof -
  let ?mx = "max 10 (W - max tw aw)" and ?my = "max 40 (H - 60)"
  have "randint 10 ?mx (nat (?mx - 10)) = ?mx" by (rule randint_onto) simp_all
  moreover have "randint 40 ?my (nat (?my - 40)) = ?my" by (rule randint_onto) simp_all
  ultimately have "text_position W H tw aw (nat (?mx - 10)) (nat (?my - 40)) = (?mx, ?my)"
    by (simp add: text_position_def font_size_def Let_def) linarith
  then show ?thesis by blast
qed

lemma text_position_fits_iff:
  assumes "0 \<le> text_height" "0 \<le> author_height"
  shows "(\<forall>rx ry. within_image img_width img_height
             (quote_box (text_position img_width img_height text_width author_width rx ry)
                text_width text_height) \<and>
           within_image img_width img_height
             (author_box (text_position img_width img_height text_width author_width rx ry)
                author_width author_height))
         \<longleftrightarrow>
         (max text_width author_width + 10 \<le> img_width \<and> text_height \<le> 40 \<and>
          author_height \<le> 55 \<and> 45 + author_height \<le> img_height)"
    (is "?L \<longleftrightarrow> ?R")
proof
  assume L: ?L
  from L [rule_format, of 0 0] have low: "text_height \<le> 40"
    by (simp add: text_position_low within_image_def quote_box_def)
  obtain rx ry where hi: "text_position img_width img_height text_width author_width rx ry =
      (max 10 (img_width - max text_width author_width), max 40 (img_height - 60))"
    using text_position_high by blast
  from L [rule_format, of rx ry] hi
  have "max 10 (img_width - max text_width author_width) + text_width \<le> img_width"
    "max 10 (img_width - max text_width author_width) + author_width \<le> img_width"
    "max 40 (img_height - 60) + 5 + author_height \<le> img_height"
    by (simp_all add: within_image_def quote_box_def author_box_def)
  with low show ?R by linarith
next
  assume R: ?R
  show ?L
  proof (intro allI)
    fix rx ry
    obtain x y where p: "text_position img_width img_height text_width author_width rx ry = (x, y)"
      by (cases "text_position img_width img_height text_width author_width rx ry")
    from text_position_range [OF p] R assms show
      "within_image img_width img_height
             (quote_box (text_position img_width img_height text_width author_width rx ry)
                text_width text_height) \<and>
           within_image img_width img_height
             (author_box (text_position img_width img_height text_width author_width rx ry)
                author_width author_height)"
      unfolding p within_image_def quote_box_def author_box_def by simp linarith
  qed
qed

section \<open>Properties of the ingestors\<close>

lemma txt_quotes_cleaned:
  "q \<in> set (txt_quotes lib lines) \<Longrightarrow>
     \<exists>raw_quote raw_author. quote q = PyStr (clean_data lib raw_quote) \<and>
        author q = PyStr (clean_data lib raw_author)"
  by (induction lines) (auto simp: Let_def split: if_splits)

lemma docx_quotes_cleaned:
  "q \<in> set (docx_quotes lib paragraphs) \<Longrightarrow>
     \<exists>raw_quote raw_author. quote q = PyStr (clean_data lib raw_quote) \<and>
        author q = PyStr (clean_data lib raw_author)"
  by (induction paragraphs) (auto simp: Let_def split: if_splits)

lemma pdf_quotes_cleaned:
  "q \<in> set (pdf_quotes lib lines) \<Longrightarrow>
     \<exists>raw_quote raw_author. quote q = PyStr (clean_data lib raw_quote) \<and>
        author q = PyStr (clean_data lib raw_author)"
  by (induction lines) (auto simp: pdf_line_def Let_def split: sum.splits)

lemma text_parsers_clean:
  assumes "IngestorTXT_parse lib path = Inr qs \<or> IngestorDOCX_parse lib path = Inr qs
      \<or> IngestorPDF_parse lib path = Inr qs"
    and "q \<in> set qs"
  shows "\<exists>raw_quote raw_author. quote q = PyStr (clean_data lib raw_quote) \<and>
        author q = PyStr (clean_data lib raw_author)"
  using assms txt_quotes_cleaned [of q lib] docx_quotes_cleaned [of q lib]
    pdf_quotes_cleaned [of q lib]
  by (auto simp: IngestorTXT_parse_def IngestorDOCX_parse_def IngestorPDF_parse_def
      split: if_splits sum.splits)

lemma csv_ext: "input_extension (py ''DogQuotesCSV.csv'') = py ''csv''"
  by (simp add: input_extension_def py_def dot_def)

lemma pdf_ext: "input_extension (py ''DogQuotesPDF.pdf'') = py ''pdf''"
  by (simp add: input_extension_def py_def dot_def)

section \<open>Properties of the pipeline\<close>

lemma os_mkdir_same:
  "os_mkdir sys p w = Inr w' \<Longrightarrow> files w' = files w \<and> trace w' = trace w"
  by (auto simp: os_mkdir_def split: option.splits if_splits)

lemma mkdir_upto_same:
  "mkdir_upto sys p n w = Inr w' \<Longrightarrow> files w' = files w \<and> trace w' = trace w"
proof (induction n arbitrary: w')
  case 0
  then show ?case
    by (auto simp: Let_def split: sum.splits if_splits dest: os_mkdir_same)
next
  case (Suc n)
  show ?case
  proof (cases "os_mkdir sys (fst p, take (Suc n) (snd p)) w")
    case (Inr w1)
    with Suc.prems show ?thesis by (auto simp: Let_def dest: os_mkdir_same)
  next
    case (Inl e)
    show ?thesis
    proof (cases "is_FileNotFoundError e")
      case False
      with Inl Suc.prems show ?thesis by (auto simp: Let_def split: if_splits)
    next
      case True
      with Inl Suc.prems obtain w1 where w1: "mkdir_upto sys p n w = Inr w1"
        by (cases "mkdir_upto sys p n w") (auto simp: Let_def)
      from Suc.IH [OF w1] have s1: "files w1 = files w" "trace w1 = trace w" by simp_all
      from Inl True w1 Suc.prems show ?thesis
        using s1 by (auto simp: Let_def split: sum.splits if_splits dest: os_mkdir_same)
    qed
  qed
qed

lemma mkdir_parents_same:
  "mkdir_parents sys p w = Inr w' \<Longrightarrow> files w' = files w \<and> trace w' = trace w"
  unfolding mkdir_parents_def by (rule mkdir_upto_same)




section \<open>Example runs\<close>

lemma example_new_height_400: "py_int (int_mul_float 500 (int_truediv 800 1000)) = 400"
  by code_simp

lemma example_load: "load_and_resize_image (example_system 1000 800) p 500 =
   Inr \<lparr>im_size = (500, 400), overlays = []\<rparr>"
  by (simp add: load_and_resize_image_def example_system_def example_new_height_400)

lemma example_fonts: "prepare_fonts (example_system a b) = Inr (30, 24)"
  by (simp add: prepare_fonts_def example_system_def font_size_def author_font_size_24)

lemma example_calls:
  "textbbox (example_system a b) = (\<lambda>t n. Inr (int (length (py_str t)) * (n div 2), n))"
  "draw_error (example_system a b) = (\<lambda>ov. None)"
  "save_error (example_system a b) = (\<lambda>im p. None)"
  "requests_get (example_system a b) = (\<lambda>u. Inr (200, []))"
  "gettempdir (example_system a b) = py ''/tmp''"
  "mkdir_error (example_system a b) = (\<lambda>p. None)"
  "tempfile_error (example_system a b) = (\<lambda>p. None)"
  by (simp_all add: example_system_def)

lemma example_position: "text_position 500 400 60 60 7 1000 = (17, 137)"
  by (simp add: text_position_def font_size_def randint_def)

lemmas run_defs =
  example_calls example_position Let_def example_randomness_def randint_def log_def
  quote_overlay_def author_overlay_def author_line_def
  mkdir_parents_def os_mkdir_def walk_error_def path_is_dir_def is_dir_def is_file_def
  fs_key_def temp_file_def Path_def path_name_def path_str_def
  slash_def py_def example_image_def


lemma static_run:
  "make_meme (example_system 1000 800) example_randomness (py ''./static'') p
     (PyStr (py ''Woof'')) (PyStr (py ''Rex'')) 500
     \<lparr>dirs = {}, files = [([47], [py ''tmp'', py ''tmpwxyz5678.jpg'']) \<mapsto> RawFile data],
      trace = tr\<rparr> =
   (Inr (py ''static/meme_abcd1234.jpg''),
    \<lparr>dirs = {([], [py ''static''])},
     files = [([47], [py ''tmp'', py ''tmpwxyz5678.jpg'']) \<mapsto> RawFile data,
              ([], [py ''static'', py ''meme_abcd1234.jpg'']) \<mapsto> ImageFile example_image],
     trace = tr @ [ResizeImage (500, 400), DrawText (overlays example_image ! 0),
              DrawText (overlays example_image ! 1),
              SaveFile ([], [py ''static'', py ''meme_abcd1234.jpg''])]\<rparr>)"
  unfolding make_meme_def example_load example_fonts
  by (simp add: run_defs)

lemma nested_run:
  "make_meme (example_system 1000 800) example_randomness (py ''out/memes'') (py ''dog.jpg'')
     (PyStr (py ''Woof'')) (PyStr (py ''Rex'')) 500 memes_world =
   (Inr (py ''out/memes/meme_abcd1234.jpg''),
    \<lparr>dirs = {([], [py ''out'', py ''memes'']), ([], [py ''out'']), ([], [py ''memes''])},
     files = [([], [py ''memes'', py ''meme_abcd1234.jpg'']) \<mapsto> ImageFile example_image],
     trace = [ResizeImage (500, 400), DrawText (overlays example_image ! 0),
              DrawText (overlays example_image ! 1),
              SaveFile ([], [py ''memes'', py ''meme_abcd1234.jpg''])]\<rparr>)"
  unfolding make_meme_def example_load example_fonts memes_world_def
  by (simp add: run_defs)

lemma py_append: "py a @ py b = py (a @ b)"
  by (simp add: py_def)

lemma py_append2: "py a @ py b @ c = py (a @ b) @ c"
  by (simp add: py_def)

lemma length_py: "length (py s) = length s"
  by (simp add: py_def)

lemma example_exts:
  "can_ingest [py ''txt''] (py ''q.txt'')" "can_ingest [py ''docx''] (py ''q.docx'')"
  "can_ingest [py ''csv''] (py ''q.csv'')" "can_ingest [py ''pdf''] (py ''q.pdf'')"
  by (simp_all add: can_ingest_def input_extension_def py_def dot_def)

lemma example_library_fails:
  "readlines example_library p = Inl (Raise FileNotFoundError p)"
  "docx_paragraphs example_library p = Inl (Raise FileNotFoundError p)"
  "read_csv example_library p = Inl (Raise FileNotFoundError p)"
  "pdftotext example_library p = Inl (Raise FileNotFoundError p)"
  by (simp_all add: example_library_def no_file_def)

lemma example_form_get:
  "example_form u b a (py ''image_url'') = Some u"
  "example_form u b a (py ''body'') = Some b"
  "example_form u b a (py ''author'') = Some a"
  by (simp_all add: example_form_def py_def)

lemma py_eq_Nil: "(py s = []) = (s = [])"
  by (simp add: py_def)

lemma example_upload:
  "upload_path (example_system ow oh) example_randomness = ([47], [py ''tmp'', py ''tmpwxyz5678.jpg''])"
  by (simp add: upload_path_def example_system_def example_randomness_def Path_def fs_key_def
      py_def slash_def)








lemma wide_quote_length: "length wide_quote = 60"
  by (simp add: wide_quote_def)

lemma wide_position: "text_position 500 400 900 60 rx ry = (10, 40 + int (ry mod 301))"
  by (simp add: text_position_def font_size_def randint_def)

lemma wide_run:
  "make_meme (example_system 1000 800) (example_randomness\<lparr>rand_x := rx, rand_y := ry\<rparr>)
     (py ''./tmp'') p (PyStr wide_quote) (PyStr (py ''Rex'')) 500 empty_world =
   (Inr (py ''tmp/meme_abcd1234.jpg''),
    \<lparr>dirs = {([], [py ''tmp''])},
     files = [([], [py ''tmp'', py ''meme_abcd1234.jpg'']) \<mapsto>
        ImageFile \<lparr>im_size = (500, 400),
          overlays = [\<lparr>position = (10, 40 + int (ry mod 301)), content = PyStr wide_quote,
                        font_px = 30, anchor = ''lb'', fill = (250, 240, 255)\<rparr>,
                      \<lparr>position = (10, 45 + int (ry mod 301)), content = PyStr (py ''- Rex''),
                        font_px = 24, anchor = ''lt'', fill = (1, 2, 3)\<rparr>]\<rparr>],
     trace = [ResizeImage (500, 400),
              DrawText \<lparr>position = (10, 40 + int (ry mod 301)), content = PyStr wide_quote,
                        font_px = 30, anchor = ''lb'', fill = (250, 240, 255)\<rparr>,
              DrawText \<lparr>position = (10, 45 + int (ry mod 301)), content = PyStr (py ''- Rex''),
                        font_px = 24, anchor = ''lt'', fill = (1, 2, 3)\<rparr>,
              SaveFile ([], [py ''tmp'', py ''meme_abcd1234.jpg''])]\<rparr>)"
  unfolding make_meme_def example_load example_fonts empty_world_def
  by (simp add: run_defs wide_quote_length wide_position)

section \<open>The claims\<close>

text \<open>
  C1. \<open>make_meme\<close> is to place both text blocks inside the resized image for every
  quote, and its position block is there to avoid clipping. For a quote of sixty
  letters it does not: the image is resized to 500 by 400 pixels, the quote measures
  900 pixels, and whatever the two random draws for the position are, the meme is
  saved with the quote drawn from x = 10, so that its right edge lies outside the
  image. (The positions fit exactly under the conditions of lemma
  \<open>text_position_fits_iff\<close>.)
\<close>

theorem make_meme_clips_wide_quote:
  "\<forall>rx ry. \<exists>img.
     files (snd (make_meme (example_system 1000 800)
                   (example_randomness\<lparr>rand_x := rx, rand_y := ry\<rparr>) (py ''./tmp'')
                   (py ''dog.jpg'') (PyStr wide_quote) (PyStr (py ''Rex'')) 500 empty_world))
       ([], [py ''tmp'', py ''meme_abcd1234.jpg'']) = Some (ImageFile img) \<and>
     im_size img = (500, 400) \<and>
     textbbox (example_system 1000 800) (PyStr wide_quote) font_size = Inr (900, 30) \<and>
     content (overlays img ! 0) = PyStr wide_quote \<and>
     fst (position (overlays img ! 0)) = 10 \<and>
     \<not> within_image 500 400 (quote_box (position (overlays img ! 0)) 900 30)"
  unfolding wide_run
  by (simp add: example_calls font_size_def wide_quote_length within_image_def quote_box_def)

text \<open>
  C2. For every path, \<open>Ingestor.parse\<close> dispatches on the file extension, which is what
  follows the last dot of the path (the path is some prefix, empty or ending in a dot,
  followed by the extension, and the extension holds no dot): \<open>csv\<close>, \<open>docx\<close>, \<open>txt\<close>
  and \<open>pdf\<close> are handed to the parser of that format, and every other extension raises
  \<open>Exception('No suitable ingestor found')\<close>.
\<close>

theorem Ingestor_parse_dispatch:
  "(input_extension path = py ''csv'' \<longrightarrow>
      Ingestor_parse lib path = IngestorCSV_parse lib path) \<and>
   (input_extension path = py ''docx'' \<longrightarrow>
      Ingestor_parse lib path = IngestorDOCX_parse lib path) \<and>
   (input_extension path = py ''txt'' \<longrightarrow>
      Ingestor_parse lib path = IngestorTXT_parse lib path) \<and>
   (input_extension path = py ''pdf'' \<longrightarrow>
      Ingestor_parse lib path = IngestorPDF_parse lib path) \<and>
   (input_extension path \<notin> {py ''csv'', py ''docx'', py ''txt'', py ''pdf''} \<longrightarrow>
      Ingestor_parse lib path = Inl (Raise Exception (py ''No suitable ingestor found''))) \<and>
   dot \<notin> set (input_extension path) \<and>
   (\<exists>pre. path = pre @ input_extension path \<and> (pre = [] \<or> last pre = dot))"
proof -
  have d: "py ''docx'' \<noteq> py ''csv''" "py ''txt'' \<noteq> py ''csv''" "py ''txt'' \<noteq> py ''docx''"
    "py ''pdf'' \<noteq> py ''csv''" "py ''pdf'' \<noteq> py ''docx''" "py ''pdf'' \<noteq> py ''txt''"
    by (simp_all add: py_def)
  have "dot \<notin> set (input_extension path) \<and>
    (\<exists>pre. path = pre @ input_extension path \<and> (pre = [] \<or> last pre = dot))"
    by (rule input_extension_after_last_dot)
  moreover have "input_extension path = py ''csv'' \<longrightarrow>
      Ingestor_parse lib path = IngestorCSV_parse lib path"
    by (simp add: Ingestor_parse_def)
  moreover have "input_extension path = py ''docx'' \<longrightarrow>
      Ingestor_parse lib path = IngestorDOCX_parse lib path"
    using d by (simp add: Ingestor_parse_def)
  moreover have "input_extension path = py ''txt'' \<longrightarrow>
      Ingestor_parse lib path = IngestorTXT_parse lib path"
    using d by (simp add: Ingestor_parse_def)
  moreover have "input_extension path = py ''pdf'' \<longrightarrow>
      Ingestor_parse lib path = IngestorPDF_parse lib path"
    using d by (simp add: Ingestor_parse_def)
  moreover have "input_extension path \<notin> {py ''csv'', py ''docx'', py ''txt'', py ''pdf''} \<longrightarrow>
      Ingestor_parse lib path = Inl (Raise Exception (py ''No suitable ingestor found''))"
    by (simp add: Ingestor_parse_def)
  ultimately show ?thesis by blast
qed

theorem Ingestor_parse_dispatch_witness:
  "input_extension (py ''q.csv'') = py ''csv'' \<and>
   Ingestor_parse example_library (py ''q.csv'') = IngestorCSV_parse example_library (py ''q.csv'') \<and>
   input_extension (py ''q.docx'') = py ''docx'' \<and>
   Ingestor_parse example_library (py ''q.docx'') = IngestorDOCX_parse example_library (py ''q.docx'') \<and>
   input_extension (py ''q.txt'') = py ''txt'' \<and>
   Ingestor_parse example_library (py ''q.txt'') = IngestorTXT_parse example_library (py ''q.txt'') \<and>
   input_extension (py ''q.pdf'') = py ''pdf'' \<and>
   Ingestor_parse example_library (py ''q.pdf'') = IngestorPDF_parse example_library (py ''q.pdf'') \<and>
   input_extension (py ''q.png'') \<notin> {py ''csv'', py ''docx'', py ''txt'', py ''pdf''} \<and>
   Ingestor_parse example_library (py ''q.png'') =
     Inl (Raise Exception (py ''No suitable ingestor found''))"
proof -
  have e: "input_extension (py ''q.csv'') = py ''csv''"
    "input_extension (py ''q.docx'') = py ''docx''"
    "input_extension (py ''q.txt'') = py ''txt''"
    "input_extension (py ''q.pdf'') = py ''pdf''"
    "input_extension (py ''q.png'') \<notin> {py ''csv'', py ''docx'', py ''txt'', py ''pdf''}"
    by (simp_all add: input_extension_def py_def dot_def)
  have 1: "Ingestor_parse example_library (py ''q.csv'') =
      IngestorCSV_parse example_library (py ''q.csv'')"
    using e(1) Ingestor_parse_dispatch [of "py ''q.csv''" example_library] by simp
  have 2: "Ingestor_parse example_library (py ''q.docx'') =
      IngestorDOCX_parse example_library (py ''q.docx'')"
    using e(2) Ingestor_parse_dispatch [of "py ''q.docx''" example_library] by simp
  have 3: "Ingestor_parse example_library (py ''q.txt'') =
      IngestorTXT_parse example_library (py ''q.txt'')"
    using e(3) Ingestor_parse_dispatch [of "py ''q.txt''" example_library] by simp
  have 4: "Ingestor_parse example_library (py ''q.pdf'') =
      IngestorPDF_parse example_library (py ''q.pdf'')"
    using e(4) Ingestor_parse_dispatch [of "py ''q.pdf''" example_library] by simp
  have 5: "Ingestor_parse example_library (py ''q.png'') =
      Inl (Raise Exception (py ''No suitable ingestor found''))"
    using e(5) Ingestor_parse_dispatch [of "py ''q.png''" example_library] by blast
  show ?thesis
    using e 1 2 3 4 5 by (intro conjI)
qed

text \<open>
  C3. Every format-specific parser is to return records whose quote and author are
  \<open>clean_data\<close> of the raw text. The TXT, DOCX and PDF parsers do (lemma
  \<open>text_parsers_clean\<close>); the CSV parser does not: for a CSV row with the body
  \<open>Woof!\<close> it returns the body as it is, while \<open>clean_data\<close> gives \<open>Woof\<close>.
\<close>

theorem IngestorCSV_parse_not_cleaned:
  "Ingestor_parse (csv_library [(PyStr (py ''Woof!''), PyStr (py ''Rex''))]) (py ''DogQuotesCSV.csv'')
     = Inr [\<lparr>quote = PyStr (py ''Woof!''), author = PyStr (py ''Rex'')\<rparr>] \<and>
   clean_data (csv_library [(PyStr (py ''Woof!''), PyStr (py ''Rex''))]) (py ''Woof!'') = py ''Woof''"
proof -
  have "clean_data (csv_library [(PyStr (py ''Woof!''), PyStr (py ''Rex''))]) (py ''Woof!'') = py ''Woof''"
    by (simp add: clean_data_def strip_def lstrip_def rstrip_def py_def unwanted_chars_def
        csv_library_def example_library_def latin1_isprintable_def latin1_isspace_def)
  then show ?thesis
    by (simp add: Ingestor_parse_def IngestorCSV_parse_def can_ingest_def csv_ext csv_library_def)
qed

text \<open>
  C4. Every quote record produced by an ingestor is to be a pair of plain strings. The
  CSV ingestor stores the cells as pandas typed them: for a row whose body cell is the
  number 42 the record's quote is the integer 42, not a string.
\<close>

theorem IngestorCSV_parse_not_str:
  "Ingestor_parse (csv_library [(PyInt 42, PyStr (py ''Rex''))]) (py ''DogQuotesCSV.csv'')
     = Inr [\<lparr>quote = PyInt 42, author = PyStr (py ''Rex'')\<rparr>] \<and>
   \<not> is_str (quote \<lparr>quote = PyInt 42, author = PyStr (py ''Rex'')\<rparr>)"
  by (simp add: Ingestor_parse_def IngestorCSV_parse_def can_ingest_def csv_ext csv_library_def)

text \<open>
  C5, as amended. An error of a library call during ingestion or composition reaches
  the caller as an exception. A failing read makes the TXT, DOCX and CSV parsers raise
  that error, and a failing \<open>pdftotext\<close> makes the PDF parser raise a \<open>ValueError\<close> that
  carries its message. \<open>load_and_resize_image\<close> raises the error of \<open>Image.open\<close>, of
  the division and of the resize. \<open>make_meme\<close> goes through its calls in order (load
  and resize, the two fonts, the two measurements, the two drawings, creating the
  output directory, taking the temporary name, saving) and raises the error of the
  first call that fails, unchanged; only when none fails does it return the path, and
  then the image with the two texts is in the file of the temporary name. (The one
  place that recovers, the line loop of the PDF parser, is left out.)
\<close>

theorem errors_propagate:
  "(can_ingest [py ''txt''] path \<and> readlines lib path = Inl e \<longrightarrow>
      IngestorTXT_parse lib path = Inl e) \<and>
   (can_ingest [py ''docx''] path \<and> docx_paragraphs lib path = Inl e \<longrightarrow>
      IngestorDOCX_parse lib path = Inl e) \<and>
   (can_ingest [py ''csv''] path \<and> read_csv lib path = Inl e \<longrightarrow>
      IngestorCSV_parse lib path = Inl e) \<and>
   (can_ingest [py ''pdf''] path \<and> pdftotext lib path = Inl e \<longrightarrow>
      IngestorPDF_parse lib path =
        Inl (Raise ValueError (py ''Error occurred while processing PDF: '' @ str_of_error e))) \<and>
   (case image_open sys img_path of
      Inl e \<Rightarrow> load_and_resize_image sys img_path width = Inl e
    | Inr (original_width, original_height) \<Rightarrow>
        if original_width = 0 then
          load_and_resize_image sys img_path width =
            Inl (Raise ZeroDivisionError (py ''division by zero''))
        else
          (let new_width = (if width > 500 \<or> width < 1 then 500 else width);
               new_height = py_int (int_mul_float new_width
                                      (int_truediv original_height original_width))
           in case resize_error sys (new_width, new_height) of
                Some e \<Rightarrow> load_and_resize_image sys img_path width = Inl e
              | None \<Rightarrow> load_and_resize_image sys img_path width =
                          Inr \<lparr>im_size = (new_width, new_height), overlays = []\<rparr>)) \<and>
   (case load_and_resize_image sys img_path width of
      Inl e \<Rightarrow> make_meme sys rnd output_dir img_path quote_text auth width w = (Inl e, w)
    | Inr img \<Rightarrow>
    (case font_error sys font_size of
      Some e \<Rightarrow> fst (make_meme sys rnd output_dir img_path quote_text auth width w) = Inl e
    | None \<Rightarrow>
    (case font_error sys author_font_size of
      Some e \<Rightarrow> fst (make_meme sys rnd output_dir img_path quote_text auth width w) = Inl e
    | None \<Rightarrow>
    (case textbbox sys quote_text font_size of
      Inl e \<Rightarrow> fst (make_meme sys rnd output_dir img_path quote_text auth width w) = Inl e
    | Inr (text_width, text_bottom) \<Rightarrow>
    (case textbbox sys (author_line auth) author_font_size of
      Inl e \<Rightarrow> fst (make_meme sys rnd output_dir img_path quote_text auth width w) = Inl e
    | Inr (author_width, author_bottom) \<Rightarrow>
    (let xy = text_position (fst (im_size img)) (snd (im_size img)) text_width author_width
                (rand_x rnd) (rand_y rnd);
         o1 = quote_overlay xy quote_text font_size;
         o2 = author_overlay xy auth author_font_size rnd
     in
     case draw_error sys o1 of
       Some e \<Rightarrow> fst (make_meme sys rnd output_dir img_path quote_text auth width w) = Inl e
     | None \<Rightarrow>
    (case draw_error sys o2 of
       Some e \<Rightarrow> fst (make_meme sys rnd output_dir img_path quote_text auth width w) = Inl e
     | None \<Rightarrow>
    (case mkdir_parents sys (Path output_dir)
            (log (DrawText o2) (log (DrawText o1) (log (ResizeImage (im_size img)) w))) of
       Inl e \<Rightarrow> fst (make_meme sys rnd output_dir img_path quote_text auth width w) = Inl e
     | Inr w3 \<Rightarrow>
    (case NamedTemporaryFile_name sys (path_name (Path output_dir)) (rand_names rnd) w3 of
       Inl e \<Rightarrow> fst (make_meme sys rnd output_dir img_path quote_text auth width w) = Inl e
     | Inr saved \<Rightarrow>
    (case save_error sys (img\<lparr>overlays := overlays img @ [o1, o2]\<rparr>) saved of
       Some e \<Rightarrow> fst (make_meme sys rnd output_dir img_path quote_text auth width w) = Inl e
     | None \<Rightarrow>
         fst (make_meme sys rnd output_dir img_path quote_text auth width w) =
           Inr (path_str (Path output_dir) @ [slash] @ path_name saved) \<and>
         files (snd (make_meme sys rnd output_dir img_path quote_text auth width w)) =
           (files w)(saved \<mapsto> ImageFile (img\<lparr>overlays := overlays img @ [o1, o2]\<rparr>))))))))))))"
proof -
  have "can_ingest [py ''txt''] path \<and> readlines lib path = Inl e \<longrightarrow>
      IngestorTXT_parse lib path = Inl e"
    by (simp add: IngestorTXT_parse_def)
  moreover have "can_ingest [py ''docx''] path \<and> docx_paragraphs lib path = Inl e \<longrightarrow>
      IngestorDOCX_parse lib path = Inl e"
    by (simp add: IngestorDOCX_parse_def)
  moreover have "can_ingest [py ''csv''] path \<and> read_csv lib path = Inl e \<longrightarrow>
      IngestorCSV_parse lib path = Inl e"
    by (simp add: IngestorCSV_parse_def)
  moreover have "can_ingest [py ''pdf''] path \<and> pdftotext lib path = Inl e \<longrightarrow>
      IngestorPDF_parse lib path =
        Inl (Raise ValueError (py ''Error occurred while processing PDF: '' @ str_of_error e))"
    by (simp add: IngestorPDF_parse_def)
  moreover have "(case image_open sys img_path of
      Inl e \<Rightarrow> load_and_resize_image sys img_path width = Inl e
    | Inr (original_width, original_height) \<Rightarrow>
        if original_width = 0 then
          load_and_resize_image sys img_path width =
            Inl (Raise ZeroDivisionError (py ''division by zero''))
        else
          (let new_width = (if width > 500 \<or> width < 1 then 500 else width);
               new_height = py_int (int_mul_float new_width
                                      (int_truediv original_height original_width))
           in case resize_error sys (new_width, new_height) of
                Some e \<Rightarrow> load_and_resize_image sys img_path width = Inl e
              | None \<Rightarrow> load_and_resize_image sys img_path width =
                          Inr \<lparr>im_size = (new_width, new_height), overlays = []\<rparr>))"
    by (simp add: load_and_resize_image_def Let_def split: sum.split prod.split option.split)
  moreover have "(case load_and_resize_image sys img_path width of
      Inl e \<Rightarrow> make_meme sys rnd output_dir img_path quote_text auth width w = (Inl e, w)
    | Inr img \<Rightarrow>
    (case font_error sys font_size of
      Some e \<Rightarrow> fst (make_meme sys rnd output_dir img_path quote_text auth width w) = Inl e
    | None \<Rightarrow>
    (case font_error sys author_font_size of
      Some e \<Rightarrow> fst (make_meme sys rnd output_dir img_path quote_text auth width w) = Inl e
    | None \<Rightarrow>
    (case textbbox sys quote_text font_size of
      Inl e \<Rightarrow> fst (make_meme sys rnd output_dir img_path quote_text auth width w) = Inl e
    | Inr (text_width, text_bottom) \<Rightarrow>
    (case textbbox sys (author_line auth) author_font_size of
      Inl e \<Rightarrow> fst (make_meme sys rnd output_dir img_path quote_text auth width w) = Inl e
    | Inr (author_width, author_bottom) \<Rightarrow>
    (let xy = text_position (fst (im_size img)) (snd (im_size img)) text_width author_width
                (rand_x rnd) (rand_y rnd);
         o1 = quote_overlay xy quote_text font_size;
         o2 = author_overlay xy auth author_font_size rnd
     in
     case draw_error sys o1 of
       Some e \<Rightarrow> fst (make_meme sys rnd output_dir img_path quote_text auth width w) = Inl e
     | None \<Rightarrow>
    (case draw_error sys o2 of
       Some e \<Rightarrow> fst (make_meme sys rnd output_dir img_path quote_text auth width w) = Inl e
     | None \<Rightarrow>
    (case mkdir_parents sys (Path output_dir)
            (log (DrawText o2) (log (DrawText o1) (log (ResizeImage (im_size img)) w))) of
       Inl e \<Rightarrow> fst (make_meme sys rnd output_dir img_path quote_text auth width w) = Inl e
     | Inr w3 \<Rightarrow>
    (case NamedTemporaryFile_name sys (path_name (Path output_dir)) (rand_names rnd) w3 of
       Inl e \<Rightarrow> fst (make_meme sys rnd output_dir img_path quote_text auth width w) = Inl e
     | Inr saved \<Rightarrow>
    (case save_error sys (img\<lparr>overlays := overlays img @ [o1, o2]\<rparr>) saved of
       Some e \<Rightarrow> fst (make_meme sys rnd output_dir img_path quote_text auth width w) = Inl e
     | None \<Rightarrow>
         fst (make_meme sys rnd output_dir img_path quote_text auth width w) =
           Inr (path_str (Path output_dir) @ [slash] @ path_name saved) \<and>
         files (snd (make_meme sys rnd output_dir img_path quote_text auth width w)) =
           (files w)(saved \<mapsto> ImageFile (img\<lparr>overlays := overlays img @ [o1, o2]\<rparr>))))))))))))"
    using mkdir_parents_same
    by (auto simp: make_meme_def prepare_fonts_def Let_def log_def
        split: sum.split option.split prod.split)
  ultimately show ?thesis by (intro conjI)
qed

theorem errors_propagate_witness:
  "can_ingest [py ''txt''] (py ''q.txt'') \<and>
   readlines example_library (py ''q.txt'') = Inl (Raise FileNotFoundError (py ''q.txt'')) \<and>
   IngestorTXT_parse example_library (py ''q.txt'') = Inl (Raise FileNotFoundError (py ''q.txt'')) \<and>
   can_ingest [py ''docx''] (py ''q.docx'') \<and>
   docx_paragraphs example_library (py ''q.docx'') = Inl (Raise FileNotFoundError (py ''q.docx'')) \<and>
   IngestorDOCX_parse example_library (py ''q.docx'') = Inl (Raise FileNotFoundError (py ''q.docx'')) \<and>
   can_ingest [py ''csv''] (py ''q.csv'') \<and>
   read_csv example_library (py ''q.csv'') = Inl (Raise FileNotFoundError (py ''q.csv'')) \<and>
   IngestorCSV_parse example_library (py ''q.csv'') = Inl (Raise FileNotFoundError (py ''q.csv'')) \<and>
   can_ingest [py ''pdf''] (py ''q.pdf'') \<and>
   pdftotext example_library (py ''q.pdf'') = Inl (Raise FileNotFoundError (py ''q.pdf'')) \<and>
   IngestorPDF_parse example_library (py ''q.pdf'') =
     Inl (Raise ValueError (py ''Error occurred while processing PDF: '' @ py ''q.pdf'')) \<and>
   image_open failing_system (py ''dog.jpg'') = Inl (Raise FileNotFoundError (py ''dog.jpg'')) \<and>
   load_and_resize_image failing_system (py ''dog.jpg'') 500 =
     Inl (Raise FileNotFoundError (py ''dog.jpg'')) \<and>
   make_meme failing_system example_randomness (py ''./tmp'') (py ''dog.jpg'')
       (PyStr (py ''Woof'')) (PyStr (py ''Rex'')) 500 empty_world =
     (Inl (Raise FileNotFoundError (py ''dog.jpg'')), empty_world) \<and>
   fst (make_meme (example_system 1000 800) example_randomness (py ''./tmp'') (py ''dog.jpg'')
       (PyStr (py ''Woof'')) (PyStr (py ''Rex'')) 500 empty_world) =
     Inr (py ''tmp/meme_abcd1234.jpg'') \<and>
   files (snd (make_meme (example_system 1000 800) example_randomness (py ''./tmp'')
       (py ''dog.jpg'') (PyStr (py ''Woof'')) (PyStr (py ''Rex'')) 500 empty_world)) =
     [([], [py ''tmp'', py ''meme_abcd1234.jpg'']) \<mapsto> ImageFile example_image]"
proof -
  let ?nf = "\<lambda>p. Raise FileNotFoundError (py p)"
  note lf = example_library_fails
  have 1: "IngestorTXT_parse example_library (py ''q.txt'') = Inl (?nf ''q.txt'')"
    using errors_propagate [of "py ''q.txt''" example_library "?nf ''q.txt''", THEN conjunct1]
      example_exts(1) lf(1) by blast
  have 2: "IngestorDOCX_parse example_library (py ''q.docx'') = Inl (?nf ''q.docx'')"
    using errors_propagate [of "py ''q.docx''" example_library "?nf ''q.docx''",
        THEN conjunct2, THEN conjunct1]
      example_exts(2) lf(2) by blast
  have 3: "IngestorCSV_parse example_library (py ''q.csv'') = Inl (?nf ''q.csv'')"
    using errors_propagate [of "py ''q.csv''" example_library "?nf ''q.csv''",
        THEN conjunct2, THEN conjunct2, THEN conjunct1]
      example_exts(3) lf(3) by blast
  have 4: "IngestorPDF_parse example_library (py ''q.pdf'') =
     Inl (Raise ValueError (py ''Error occurred while processing PDF: '' @ py ''q.pdf''))"
    using errors_propagate [of "py ''q.pdf''" example_library "?nf ''q.pdf''",
        THEN conjunct2, THEN conjunct2, THEN conjunct2, THEN conjunct1]
      example_exts(4) lf(4) by simp
  have o: "image_open failing_system (py ''dog.jpg'') = Inl (?nf ''dog.jpg'')"
    by (simp add: failing_system_def no_file_def)
  have 5: "load_and_resize_image failing_system (py ''dog.jpg'') 500 = Inl (?nf ''dog.jpg'')"
    using errors_propagate [where sys = failing_system and img_path = "py ''dog.jpg''"
        and width = 500,
        THEN conjunct2, THEN conjunct2, THEN conjunct2, THEN conjunct2, THEN conjunct1]
    by (simp add: o)
  have 6: "make_meme failing_system example_randomness (py ''./tmp'') (py ''dog.jpg'')
       (PyStr (py ''Woof'')) (PyStr (py ''Rex'')) 500 empty_world = (Inl (?nf ''dog.jpg''), empty_world)"
    using errors_propagate [where sys = failing_system and img_path = "py ''dog.jpg''"
        and width = 500 and rnd = example_randomness
        and output_dir = "py ''./tmp''" and quote_text = "PyStr (py ''Woof'')"
        and auth = "PyStr (py ''Rex'')" and w = empty_world,
        THEN conjunct2, THEN conjunct2, THEN conjunct2, THEN conjunct2, THEN conjunct2]
    by (simp add: 5)
  have f: "font_error (example_system 1000 800) = (\<lambda>n. None)"
    by (simp add: example_system_def)
  have 7: "fst (make_meme (example_system 1000 800) example_randomness (py ''./tmp'') (py ''dog.jpg'')
       (PyStr (py ''Woof'')) (PyStr (py ''Rex'')) 500 empty_world) = Inr (py ''tmp/meme_abcd1234.jpg'') \<and>
     files (snd (make_meme (example_system 1000 800) example_randomness (py ''./tmp'')
       (py ''dog.jpg'') (PyStr (py ''Woof'')) (PyStr (py ''Rex'')) 500 empty_world)) =
     [([], [py ''tmp'', py ''meme_abcd1234.jpg'']) \<mapsto> ImageFile example_image]"
    using errors_propagate [where sys = "example_system 1000 800" and img_path = "py ''dog.jpg''"
        and width = 500 and rnd = example_randomness
        and output_dir = "py ''./tmp''" and quote_text = "PyStr (py ''Woof'')"
        and auth = "PyStr (py ''Rex'')" and w = empty_world,
        THEN conjunct2, THEN conjunct2, THEN conjunct2, THEN conjunct2, THEN conjunct2]
    by (simp add: example_load f font_size_def author_font_size_24 empty_world_def run_defs)
  from example_exts lf [of "py ''q.txt''"] lf [of "py ''q.docx''"] lf [of "py ''q.csv''"]
    lf [of "py ''q.pdf''"] 1 2 3 4 o 5 6 7
  show ?thesis by (intro conjI) (simp_all only:)
qed

text \<open>
  C5 as stated fails: in the PDF parser a line without a dash raises \<open>IndexError\<close>,
  which the loop catches; the parser goes on and returns the empty list.
\<close>

theorem IngestorPDF_parse_skips_counterexample:
  "pdf_line (pdf_library (py ''no author here'')) (py ''no author here'') =
     Inl (Raise IndexError (py ''list index out of range'')) \<and>
   Ingestor_parse (pdf_library (py ''no author here'')) (py ''DogQuotesPDF.pdf'') = Inr []"
proof -
  have s: "strip (pdf_library (py ''no author here'')) (py ''no author here'') = py ''no author here''"
    by (simp add: strip_def lstrip_def rstrip_def py_def
        pdf_library_def example_library_def latin1_isspace_def)
  have l: "pdf_line (pdf_library (py ''no author here'')) (py ''no author here'') =
     Inl (Raise IndexError (py ''list index out of range''))"
    unfolding pdf_line_def s by (simp add: py_def dash_def getitem_def)
  have n: "split_on newline (py ''no author here'') = [py ''no author here'']"
    by (simp add: py_def newline_def)
  have d: "py ''pdf'' \<noteq> py ''csv''" "py ''pdf'' \<noteq> py ''docx''" "py ''pdf'' \<noteq> py ''txt''"
    by (simp_all add: py_def)
  have "Ingestor_parse (pdf_library (py ''no author here'')) (py ''DogQuotesPDF.pdf'') =
      IngestorPDF_parse (pdf_library (py ''no author here'')) (py ''DogQuotesPDF.pdf'')"
    by (simp add: Ingestor_parse_def pdf_ext d)
  also have "\<dots> = Inr (pdf_quotes (pdf_library (py ''no author here'')) [py ''no author here''])"
    by (simp add: IngestorPDF_parse_def can_ingest_def pdf_ext n pdf_library_def)
  also have "\<dots> = Inr []"
    by (simp add: l)
  finally show ?thesis using l by simp
qed




text \<open>
  C7. A successful \<open>make_meme\<close> is to return a path under the output directory at which
  the saved image exists. With the output directory \<open>out/memes\<close> and a directory
  \<open>memes\<close> in the working directory the call succeeds and returns
  \<open>out/memes/meme_abcd1234.jpg\<close>, but no file exists at that path: the image was
  saved as \<open>memes/meme_abcd1234.jpg\<close>, since the temporary name is taken in
  \<open>output_folder.name\<close>, the last component of the output directory.
\<close>

theorem make_meme_nested_output_dir:
  "fst (make_meme (example_system 1000 800) example_randomness (py ''out/memes'') (py ''dog.jpg'')
         (PyStr (py ''Woof'')) (PyStr (py ''Rex'')) 500 memes_world) =
     Inr (py ''out/memes/meme_abcd1234.jpg'') \<and>
   files (snd (make_meme (example_system 1000 800) example_randomness (py ''out/memes'')
         (py ''dog.jpg'') (PyStr (py ''Woof'')) (PyStr (py ''Rex'')) 500 memes_world))
       (fs_key (Path (py ''out/memes/meme_abcd1234.jpg''))) = None \<and>
   files (snd (make_meme (example_system 1000 800) example_randomness (py ''out/memes'')
         (py ''dog.jpg'') (PyStr (py ''Woof'')) (PyStr (py ''Rex'')) 500 memes_world))
       ([], [py ''memes'', py ''meme_abcd1234.jpg'']) = Some (ImageFile example_image)"
proof -
  have p: "fs_key (Path (py ''out/memes/meme_abcd1234.jpg'')) =
      ([], [py ''out'', py ''memes'', py ''meme_abcd1234.jpg''])"
    by (simp add: Path_def fs_key_def py_def slash_def)
  show ?thesis
    unfolding nested_run p by simp
qed

text \<open>
  C8, as amended. \<open>load_and_resize_image\<close> resizes to width 500 when the requested
  width is above 500 or below 1 and to the requested width otherwise. The new height
  is \<open>int(new_width * (original_height / original_width))\<close> in double-precision
  arithmetic: for an image at most \<open>2^42\<close> pixels high it equals the floor of
  \<open>new_width * original_height / original_width\<close> whenever that quotient is not an
  integer, and is the floor or one less than the floor when it is.
\<close>

theorem load_and_resize_image_size:
  assumes "image_open sys img_path = Inr (original_width, original_height)"
    and "0 < original_width" and "0 \<le> original_height" and "original_height < 2 ^ 42"
  shows "\<exists>new_width new_height.
     new_width = (if width > 500 \<or> width < 1 then 500 else width) \<and>
     new_height = py_int (int_mul_float new_width (int_truediv original_height original_width)) \<and>
     load_and_resize_image sys img_path width =
       (case resize_error sys (new_width, new_height) of
          Some e \<Rightarrow> Inl e
        | None \<Rightarrow> Inr \<lparr>im_size = (new_width, new_height), overlays = []\<rparr>) \<and>
     \<lfloor>of_int (new_width * original_height) / (of_int original_width :: rat)\<rfloor> - 1 \<le> new_height \<and>
     new_height \<le> \<lfloor>of_int (new_width * original_height) / (of_int original_width :: rat)\<rfloor> \<and>
     (\<not> original_width dvd new_width * original_height \<longrightarrow>
        new_height = \<lfloor>of_int (new_width * original_height) / (of_int original_width :: rat)\<rfloor>)"
proof -
  define new_width where "new_width = (if width > 500 \<or> width < 1 then 500 else width)"
  define new_height where
    "new_height = py_int (int_mul_float new_width (int_truediv original_height original_width))"
  have nw: "0 \<le> new_width" "new_width \<le> 500" by (auto simp: new_width_def)
  have "new_width * original_height \<le> 500 * original_height"
    using nw(2) assms(3) by (rule mult_right_mono)
  also have "\<dots> < 500 * 2 ^ 42" using assms(4) by simp
  also have "\<dots> < (2::int) ^ 51" by simp
  finally have small: "new_width * original_height < 2 ^ 51" .
  have run: "load_and_resize_image sys img_path width =
       (case resize_error sys (new_width, new_height) of
          Some e \<Rightarrow> Inl e
        | None \<Rightarrow> Inr \<lparr>im_size = (new_width, new_height), overlays = []\<rparr>)"
  proof (cases "width > 500 \<or> width < 1")
    case True
    then have "new_width = 500" by (simp add: new_width_def)
    with True assms(1,2) show ?thesis
      by (simp add: load_and_resize_image_def new_height_def Let_def split: option.split)
  next
    case False
    then have "new_width = width" by (simp add: new_width_def)
    with False assms(1,2) show ?thesis
      by (simp add: load_and_resize_image_def new_height_def Let_def split: option.split)
  qed
  from new_height_bounds [OF nw(1) assms(3) assms(2) small] run
  show ?thesis
    unfolding new_height_def [symmetric] using new_width_def new_height_def by blast
qed

theorem load_and_resize_image_size_witness:
  "image_open (example_system 1000 2002) (py ''dog.jpg'') = Inr (1000, 2002) \<and>
   (0::int) < 1000 \<and> (0::int) \<le> 2002 \<and> (2002::int) < 2 ^ 42 \<and>
   (\<exists>new_width new_height.
     new_width = (if (700::int) > 500 \<or> (700::int) < 1 then 500 else 700) \<and>
     new_height = py_int (int_mul_float new_width (int_truediv 2002 1000)) \<and>
     load_and_resize_image (example_system 1000 2002) (py ''dog.jpg'') 700 =
       (case resize_error (example_system 1000 2002) (new_width, new_height) of
          Some e \<Rightarrow> Inl e
        | None \<Rightarrow> Inr \<lparr>im_size = (new_width, new_height), overlays = []\<rparr>) \<and>
     \<lfloor>of_int (new_width * 2002) / (of_int 1000 :: rat)\<rfloor> - 1 \<le> new_height \<and>
     new_height \<le> \<lfloor>of_int (new_width * 2002) / (of_int 1000 :: rat)\<rfloor> \<and>
     (\<not> 1000 dvd new_width * 2002 \<longrightarrow>
        new_height = \<lfloor>of_int (new_width * 2002) / (of_int 1000 :: rat)\<rfloor>))"
proof -
  have h1: "image_open (example_system 1000 2002) (py ''dog.jpg'') = Inr (1000, 2002)"
    by (simp add: example_system_def)
  have h2: "(0::int) < 1000" and h3: "(0::int) \<le> 2002" and h4: "(2002::int) < 2 ^ 42"
    by simp_all
  from load_and_resize_image_size [OF h1 h2 h3 h4, of 700] h1 h2 h3 h4
  show ?thesis by (intro conjI)
qed

text \<open>
  C8 as stated fails: an image of 1000 by 2002 pixels resized to width 500 gets the
  height 1000, while the floor of 500 * 2002 / 1000 is 1001.
\<close>

theorem load_and_resize_image_floor_counterexample:
  "load_and_resize_image (example_system 1000 2002) (py ''dog.jpg'') 500 =
     Inr \<lparr>im_size = (500, 1000), overlays = []\<rparr> \<and>
   \<lfloor>of_int (500 * 2002) / (of_int 1000 :: rat)\<rfloor> = (1001::int)"
proof -
  have "\<lfloor>of_int (500 * 2002) / (of_int 1000 :: rat)\<rfloor> = (1001::int)"
    by (simp add: floor_divide_of_int_eq [symmetric] del: of_int_mult)
  then show ?thesis
    by (simp add: load_and_resize_image_def example_system_def example_new_height
        del: of_int_mult)
qed

text \<open>
  C9. \<open>clean_data\<close> is idempotent, and for every string its result holds no character of
  the unwanted set, no non-printable character, and neither starts nor ends with
  whitespace.
\<close>

theorem clean_data_idempotent:
  "clean_data lib (clean_data lib s) = clean_data lib s \<and>
   (\<forall>c \<in> set (clean_data lib s). c \<notin> set unwanted_chars \<and> isprintable lib c) \<and>
   (clean_data lib s \<noteq> [] \<longrightarrow>
      \<not> isspace lib (hd (clean_data lib s)) \<and> \<not> isspace lib (last (clean_data lib s)))"
proof -
  have "clean_data lib s = strip lib (filter (isprintable lib)
          (filter (\<lambda>c. c \<notin> set unwanted_chars) s))"
    by (simp add: clean_data_def)
  then have "clean_data lib s \<noteq> [] \<longrightarrow>
      \<not> isspace lib (hd (clean_data lib s)) \<and> \<not> isspace lib (last (clean_data lib s))"
    using strip_ends [of lib "filter (isprintable lib) (filter (\<lambda>c. c \<notin> set unwanted_chars) s)"]
    by auto
  then show ?thesis
    using clean_data_fixed [of lib s] clean_data_chars [of _ lib s] by blast
qed

theorem clean_data_idempotent_witness:
  "clean_data example_library (py '' \"Woof!\" '') = py ''Woof'' \<and>
   clean_data example_library (clean_data example_library (py '' \"Woof!\" '')) = py ''Woof'' \<and>
   of_char CHR ''W'' \<in> set (clean_data example_library (py '' \"Woof!\" '')) \<and>
   of_char CHR ''W'' \<notin> set unwanted_chars \<and>
   isprintable example_library (of_char CHR ''W'') \<and>
   clean_data example_library (py '' \"Woof!\" '') \<noteq> [] \<and>
   \<not> isspace example_library (hd (clean_data example_library (py '' \"Woof!\" ''))) \<and>
   \<not> isspace example_library (last (clean_data example_library (py '' \"Woof!\" '')))"
proof -
  have c: "clean_data example_library (py '' \"Woof!\" '') = py ''Woof''"
    by (simp add: clean_data_def strip_def lstrip_def rstrip_def py_def unwanted_chars_def
        example_library_def latin1_isprintable_def latin1_isspace_def)
  have w: "of_char CHR ''W'' \<in> set (py ''Woof'')" "py ''Woof'' \<noteq> []"
    by (simp_all add: py_def)
  show ?thesis
    using clean_data_idempotent [of example_library "py '' \"Woof!\" ''"] c w
    by simp
qed

text \<open>
  C10. The handler of a POST to \<open>/create\<close> returns the status 400 when one of the form
  fields \<open>image_url\<close>, \<open>body\<close>, \<open>author\<close> is missing or empty, and when fetching the
  image URL gives a status other than 200, in both cases without touching the world.
  With the three fields present and the status 200 it calls \<open>make_meme\<close> on the
  downloaded file and renders \<open>meme.html\<close> with the returned path (or raises what
  \<open>make_meme\<close> raises); it renders the result page in no other case, and every text
  response it returns has the status 400.
\<close>

theorem meme_post_status:
  "(\<not> truthy (form (py ''image_url'')) \<or> \<not> truthy (form (py ''body''))
      \<or> \<not> truthy (form (py ''author'')) \<longrightarrow>
      meme_post sys rnd form w = (Inr (TextStatus (py ''Missing info.'') 400), w)) \<and>
   (truthy (form (py ''image_url'')) \<and> truthy (form (py ''body''))
      \<and> truthy (form (py ''author'')) \<longrightarrow>
      (\<forall>status_code data.
         requests_get sys (the (form (py ''image_url''))) = Inr (status_code, data) \<longrightarrow>
         (status_code \<noteq> 200 \<longrightarrow>
            meme_post sys rnd form w = (Inr (TextStatus (py ''Error getting the image'') 400), w)) \<and>
         (status_code = 200 \<longrightarrow>
            fst (meme_post sys rnd form w) =
              (case fst (make_meme sys rnd (py ''./static'') (path_str (upload_path sys rnd))
                           (PyStr (the (form (py ''body'')))) (PyStr (the (form (py ''author''))))
                           500 (w\<lparr>files := (files w)(upload_path sys rnd \<mapsto> RawFile data)\<rparr>)) of
                 Inl e \<Rightarrow> Inl e
               | Inr p \<Rightarrow> Inr (RenderTemplate (py ''meme.html'') p))))) \<and>
   (\<forall>t p. fst (meme_post sys rnd form w) = Inr (RenderTemplate t p) \<longrightarrow>
      truthy (form (py ''image_url'')) \<and> truthy (form (py ''body''))
      \<and> truthy (form (py ''author''))
      \<and> (\<exists>data. requests_get sys (the (form (py ''image_url''))) = Inr (200, data))) \<and>
   (\<forall>t c. fst (meme_post sys rnd form w) = Inr (TextStatus t c) \<longrightarrow> c = 400)"
  by (auto simp: meme_post_def Let_def split: sum.splits prod.splits if_splits)

theorem meme_post_status_witness:
  "\<not> truthy (example_form (py ''http://x/dog.jpg'') (py ''Woof'') [] (py ''author'')) \<and>
   meme_post (example_system 1000 800) example_randomness
       (example_form (py ''http://x/dog.jpg'') (py ''Woof'') []) empty_world =
     (Inr (TextStatus (py ''Missing info.'') 400), empty_world) \<and>
   truthy (example_form (py ''http://x/dog.jpg'') (py ''Woof'') (py ''Rex'') (py ''image_url'')) \<and>
   truthy (example_form (py ''http://x/dog.jpg'') (py ''Woof'') (py ''Rex'') (py ''body'')) \<and>
   truthy (example_form (py ''http://x/dog.jpg'') (py ''Woof'') (py ''Rex'') (py ''author'')) \<and>
   requests_get ((example_system 1000 800)\<lparr>requests_get := (\<lambda>u. Inr (404, []))\<rparr>)
       (py ''http://x/dog.jpg'') = Inr (404, []) \<and>
   meme_post ((example_system 1000 800)\<lparr>requests_get := (\<lambda>u. Inr (404, []))\<rparr>)
       example_randomness (example_form (py ''http://x/dog.jpg'') (py ''Woof'') (py ''Rex''))
       empty_world =
     (Inr (TextStatus (py ''Error getting the image'') 400), empty_world) \<and>
   requests_get (example_system 1000 800) (py ''http://x/dog.jpg'') = Inr (200, []) \<and>
   fst (meme_post (example_system 1000 800) example_randomness
       (example_form (py ''http://x/dog.jpg'') (py ''Woof'') (py ''Rex'')) empty_world) =
     Inr (RenderTemplate (py ''meme.html'') (py ''static/meme_abcd1234.jpg''))"
proof -
  let ?url = "py ''http://x/dog.jpg''"
  let ?full = "example_form ?url (py ''Woof'') (py ''Rex'')"
  let ?bad = "(example_system 1000 800)\<lparr>requests_get := (\<lambda>u. Inr (404, []))\<rparr>"
  have m: "\<not> truthy (example_form ?url (py ''Woof'') [] (py ''author''))"
    by (simp add: example_form_get truthy_def)
  have t: "truthy (?full (py ''image_url''))" "truthy (?full (py ''body''))"
    "truthy (?full (py ''author''))"
    by (simp_all add: example_form_get truthy_def py_eq_Nil)
  have g404: "requests_get ?bad (the (?full (py ''image_url''))) = Inr (404, [])"
    by (simp add: example_form_get)
  have g200: "requests_get (example_system 1000 800) (the (?full (py ''image_url''))) = Inr (200, [])"
    by (simp add: example_form_get example_calls)
  have 1: "meme_post (example_system 1000 800) example_randomness
       (example_form ?url (py ''Woof'') []) empty_world =
     (Inr (TextStatus (py ''Missing info.'') 400), empty_world)"
    using m meme_post_status [of "example_form ?url (py ''Woof'') []" "example_system 1000 800"
        example_randomness empty_world, THEN conjunct1]
    by blast
  have 2: "meme_post ?bad example_randomness ?full empty_world =
     (Inr (TextStatus (py ''Error getting the image'') 400), empty_world)"
    using meme_post_status [of ?full ?bad example_randomness empty_world,
        THEN conjunct2, THEN conjunct1, rule_format, OF conjI [OF t(1) conjI [OF t(2) t(3)]] g404,
        THEN conjunct1]
    by simp
  have up: "empty_world\<lparr>files := (files empty_world)
        (upload_path (example_system 1000 800) example_randomness \<mapsto> RawFile [])\<rparr> =
      \<lparr>dirs = {}, files = [([47], [py ''tmp'', py ''tmpwxyz5678.jpg'']) \<mapsto> RawFile []],
       trace = []\<rparr>"
    by (simp add: example_upload empty_world_def)
  have "fst (meme_post (example_system 1000 800) example_randomness ?full empty_world) =
      (case fst (make_meme (example_system 1000 800) example_randomness (py ''./static'')
                   (path_str (upload_path (example_system 1000 800) example_randomness))
                   (PyStr (the (?full (py ''body'')))) (PyStr (the (?full (py ''author''))))
                   500 (empty_world\<lparr>files := (files empty_world)
                      (upload_path (example_system 1000 800) example_randomness \<mapsto> RawFile [])\<rparr>)) of
         Inl e \<Rightarrow> Inl e
       | Inr p \<Rightarrow> Inr (RenderTemplate (py ''meme.html'') p))"
    using meme_post_status [of ?full "example_system 1000 800" example_randomness empty_world,
        THEN conjunct2, THEN conjunct1, rule_format, OF conjI [OF t(1) conjI [OF t(2) t(3)]] g200,
        THEN conjunct2]
    by simp
  then have 3: "fst (meme_post (example_system 1000 800) example_randomness ?full empty_world) =
     Inr (RenderTemplate (py ''meme.html'') (py ''static/meme_abcd1234.jpg''))"
    by (simp only: example_form_get option.sel up static_run fst_conv sum.case)
  have g404': "requests_get ?bad ?url = Inr (404, [])" by simp
  have g200': "requests_get (example_system 1000 800) ?url = Inr (200, [])"
    by (simp add: example_calls)
  from m t g404' g200' 1 2 3 show ?thesis
    by (intro conjI)
qed

end
